theory Spec2Isabelle
  imports Complex_Main "HOL-Library.Word" "HOL-Library.Signed_Division"
begin

section \<open>VolRec: calibration, silhouette masks and voxel carving\<close>

text \<open>
  A shallow embedding of the core of VolRec: \<^verbatim>\<open>model/volume.cpp\<close> (the voxel grid),
  \<^verbatim>\<open>scene.cpp\<close> (voxel carving) and \<^verbatim>\<open>camera.cpp\<close> (calibration, calibration records,
  mask extraction, projection matrix).

  Conventions of the embedding.
  \<^item> C++ \<^verbatim>\<open>int\<close> values are HOL integers. Signed overflow is undefined behaviour in C++,
    so the model covers the runs in which every \<^verbatim>\<open>int\<close> expression fits; the carving grid
    has 40 * 40 * 20 voxels, far below the limit.
  \<^item> \<^verbatim>\<open>float\<close> and \<^verbatim>\<open>double\<close> values are idealised as reals: rounding, infinities
    and NaN are not modelled. The theorems depend on which expression the code
    evaluates and on how it compares the exact values, not on rounded results.
  \<^item> \<^verbatim>\<open>uint8_t\<close> pixel values are 8-bit words.
  \<^item> A \<^verbatim>\<open>throw\<close>, a failed OpenCV precondition and an out-of-range access to a
    \<^verbatim>\<open>std::vector\<close> are values of the type \<open>error\<close>; a function that can fail returns
    \<open>error + 'a\<close> with \<open>Inl\<close> for the failure.
\<close>

unbundle bit_operations_syntax

subsection \<open>Errors and loops\<close>

datatype error =
    CalibrationAborted    \<comment> \<open>\<^verbatim>\<open>runtime_error("Calibration aborted by user.")\<close>\<close>
  | CalibrationFailed     \<comment> \<open>\<^verbatim>\<open>runtime_error("Calibration failed: not enough chessboards ...")\<close>\<close>
  | CvError               \<comment> \<open>a \<^verbatim>\<open>cv::Exception\<close> raised by a failed OpenCV precondition\<close>
  | AllocError            \<comment> \<open>\<^verbatim>\<open>std::vector::resize\<close> with a size that cannot be allocated\<close>
  | OutOfRange            \<comment> \<open>\<^verbatim>\<open>operator[]\<close> outside the vector: undefined behaviour\<close>

text \<open>A \<^verbatim>\<open>for\<close> loop over a sequence, whose body may fail: the first failure ends the loop.\<close>

fun for_each :: "'a list \<Rightarrow> ('a \<Rightarrow> 's \<Rightarrow> error + 's) \<Rightarrow> 's \<Rightarrow> error + 's" where
  "for_each [] body s = Inr s"
| "for_each (a # as) body s =
     (case body a s of Inl e \<Rightarrow> Inl e | Inr s' \<Rightarrow> for_each as body s')"

text \<open>Sequencing: the second computation runs on the result of the first unless that failed.\<close>

definition and_then :: "error + 'a \<Rightarrow> ('a \<Rightarrow> error + 'b) \<Rightarrow> error + 'b" where
  "and_then r f = (case r of Inl e \<Rightarrow> Inl e | Inr a \<Rightarrow> f a)"

subsection \<open>Voxels (\<^verbatim>\<open>render/voxel.hpp\<close>)\<close>

type_synonym vec3 = "real \<times> real \<times> real"
type_synonym vec4 = "real \<times> real \<times> real \<times> real"

record voxel =
  position :: vec3
  color :: vec4
  density :: real
  active :: bool

text \<open>The default constructor \<^verbatim>\<open>Voxel()\<close>.\<close>

definition Voxel :: voxel where
  "Voxel = \<lparr>position = (0, 0, 0), color = (1, 1, 1, 1), density = 1, active = False\<rparr>"

subsection \<open>The voxel grid (\<^verbatim>\<open>model/volume.cpp\<close>)\<close>

datatype VolumeRenderMode = POINT_CLOUD | VOXEL_CUBES

text \<open>The data members of \<^verbatim>\<open>Volume\<close>, named without the trailing underscore of the source;
  the OpenGL buffer handles are left out.\<close>

record volume =
  gpu_data_dirty :: bool
  volume_texture_dirty :: bool
  width :: int
  height :: int
  depth :: int
  voxel_size :: real
  rendered_voxel_count :: nat
  voxels :: "voxel list"
  render_mode :: VolumeRenderMode

definition get_index :: "volume \<Rightarrow> int \<Rightarrow> int \<Rightarrow> int \<Rightarrow> int" where
  "get_index v x y z = z * width v * height v + y * width v + x"

definition is_valid_coordinate :: "volume \<Rightarrow> int \<Rightarrow> int \<Rightarrow> int \<Rightarrow> bool" where
  "is_valid_coordinate v x y z \<longleftrightarrow>
     x \<ge> 0 \<and> x < width v \<and> y \<ge> 0 \<and> y < height v \<and> z \<ge> 0 \<and> z < depth v"

definition voxel_to_world :: "volume \<Rightarrow> int \<Rightarrow> int \<Rightarrow> int \<Rightarrow> vec3" where
  "voxel_to_world v x y z =
     (let world_x = (of_int x - of_int (width v) * 0.5) * voxel_size v;
          world_y = of_int z * voxel_size v + voxel_size v * 0.5;
          world_z = - (of_int y - of_int (height v) * 0.5) * voxel_size v
      in (world_x, world_y, world_z))"

text \<open>
  \<^verbatim>\<open>voxels[index]\<close>, read and written. The index is a \<^verbatim>\<open>size_t\<close> converted from an
  \<^verbatim>\<open>int\<close>; a negative \<^verbatim>\<open>int\<close> becomes a huge \<^verbatim>\<open>size_t\<close>, so both directions of the range
  check fail as \<open>OutOfRange\<close>.
\<close>

definition voxel_at :: "volume \<Rightarrow> int \<Rightarrow> error + voxel" where
  "voxel_at v index =
     (if 0 \<le> index \<and> index < int (length (voxels v))
      then Inr (voxels v ! nat index) else Inl OutOfRange)"

definition voxel_modify :: "volume \<Rightarrow> int \<Rightarrow> (voxel \<Rightarrow> voxel) \<Rightarrow> error + volume" where
  "voxel_modify v index f =
     (if 0 \<le> index \<and> index < int (length (voxels v))
      then Inr (v\<lparr>voxels := (voxels v)[nat index := f (voxels v ! nat index)]\<rparr>)
      else Inl OutOfRange)"

definition set_voxel :: "volume \<Rightarrow> int \<Rightarrow> int \<Rightarrow> int \<Rightarrow> voxel \<Rightarrow> error + volume" where
  "set_voxel v x y z vox =
     (if \<not> is_valid_coordinate v x y z then Inr v
      else case voxel_modify v (get_index v x y z)
                  (\<lambda>_. vox\<lparr>position := voxel_to_world v x y z\<rparr>) of
             Inl e \<Rightarrow> Inl e
           | Inr v' \<Rightarrow> Inr (v'\<lparr>gpu_data_dirty := True, volume_texture_dirty := True\<rparr>))"

definition set_voxel_active :: "volume \<Rightarrow> int \<Rightarrow> int \<Rightarrow> int \<Rightarrow> bool \<Rightarrow> error + volume" where
  "set_voxel_active v x y z a =
     (if \<not> is_valid_coordinate v x y z then Inr v
      else case voxel_modify v (get_index v x y z) (\<lambda>q. q\<lparr>active := a\<rparr>) of
             Inl e \<Rightarrow> Inl e
           | Inr v' \<Rightarrow> Inr (v'\<lparr>gpu_data_dirty := True, volume_texture_dirty := True\<rparr>))"

definition set_voxel_color :: "volume \<Rightarrow> int \<Rightarrow> int \<Rightarrow> int \<Rightarrow> vec4 \<Rightarrow> error + volume" where
  "set_voxel_color v x y z c =
     (if \<not> is_valid_coordinate v x y z then Inr v
      else case voxel_modify v (get_index v x y z) (\<lambda>q. q\<lparr>color := c\<rparr>) of
             Inl e \<Rightarrow> Inl e
           | Inr v' \<Rightarrow> Inr (v'\<lparr>gpu_data_dirty := True, volume_texture_dirty := True\<rparr>))"

definition set_voxel_density :: "volume \<Rightarrow> int \<Rightarrow> int \<Rightarrow> int \<Rightarrow> real \<Rightarrow> error + volume" where
  "set_voxel_density v x y z d =
     (if \<not> is_valid_coordinate v x y z then Inr v
      else case voxel_modify v (get_index v x y z) (\<lambda>q. q\<lparr>density := d\<rparr>) of
             Inl e \<Rightarrow> Inl e
           | Inr v' \<Rightarrow> Inr (v'\<lparr>volume_texture_dirty := True\<rparr>))"

definition get_voxel :: "volume \<Rightarrow> int \<Rightarrow> int \<Rightarrow> int \<Rightarrow> error + voxel" where
  "get_voxel v x y z =
     (if \<not> is_valid_coordinate v x y z then Inr Voxel
      else voxel_at v (get_index v x y z))"

definition is_voxel_active :: "volume \<Rightarrow> int \<Rightarrow> int \<Rightarrow> int \<Rightarrow> error + bool" where
  "is_voxel_active v x y z =
     (if \<not> is_valid_coordinate v x y z then Inr False
      else case voxel_at v (get_index v x y z) of
             Inl e \<Rightarrow> Inl e
           | Inr q \<Rightarrow> Inr (active q))"

definition active_voxel_count :: "volume \<Rightarrow> nat" where
  "active_voxel_count v = length (filter active (voxels v))"

text \<open>
  The nested loops \<^verbatim>\<open>for z ... for y ... for x ...\<close> of the constructor and of
  \<^verbatim>\<open>fill_box\<close> visit the coordinates in this order.
\<close>

definition grid_coords :: "volume \<Rightarrow> (int \<times> int \<times> int) list" where
  "grid_coords v =
     concat (map (\<lambda>z. concat (map (\<lambda>y. map (\<lambda>x. (x, y, z)) [0 .. width v - 1])
                                    [0 .. height v - 1]))
                 [0 .. depth v - 1])"

text \<open>
  The constructor \<^verbatim>\<open>Volume(width, height, depth, voxel_size)\<close>. \<^verbatim>\<open>resize\<close> receives the
  \<^verbatim>\<open>int\<close> product converted to \<^verbatim>\<open>size_t\<close>: a negative product is a size that cannot be
  allocated. The loop writes the position of every voxel; it computes the index inline.
\<close>

definition Volume :: "int \<Rightarrow> int \<Rightarrow> int \<Rightarrow> real \<Rightarrow> error + volume" where
  "Volume w h d vs =
     (if w * h * d < 0 then Inl AllocError
      else
        let v0 = \<lparr>gpu_data_dirty = True, volume_texture_dirty = True,
                  width = w, height = h, depth = d, voxel_size = vs,
                  rendered_voxel_count = 0,
                  voxels = replicate (nat (w * h * d)) Voxel,
                  render_mode = VOXEL_CUBES\<rparr>
        in for_each (grid_coords v0)
             (\<lambda>(x, y, z) v.
                voxel_modify v (z * width v * height v + y * width v + x)
                  (\<lambda>q. q\<lparr>position := voxel_to_world v x y z\<rparr>))
             v0)"

text \<open>\<^verbatim>\<open>Volume::initialize\<close> creates the OpenGL buffers and marks the GPU data dirty.\<close>

definition initialize :: "volume \<Rightarrow> volume" where
  "initialize v = v\<lparr>gpu_data_dirty := True\<rparr>"

text \<open>The test of \<^verbatim>\<open>fill_box\<close> on one voxel position, with the precedence of C++
  (\<^verbatim>\<open>&&\<close> binds tighter than \<^verbatim>\<open>||\<close>).\<close>

definition fill_box_test :: "vec3 \<Rightarrow> vec3 \<Rightarrow> vec3 \<Rightarrow> bool" where
  "fill_box_test voxel_pos min_pos max_pos =
     (case (voxel_pos, min_pos, max_pos) of
        ((px, py, pz), (minx, miny, minz), (maxx, maxy, maxz)) \<Rightarrow>
          px \<ge> minx \<and> px \<le> maxx
        \<or> py \<ge> miny \<and> py \<le> maxy
        \<or> pz \<ge> minz \<and> pz \<le> maxz)"

definition fill_box :: "volume \<Rightarrow> vec3 \<Rightarrow> vec3 \<Rightarrow> vec4 \<Rightarrow> error + volume" where
  "fill_box v min_pos max_pos col =
     (case for_each (grid_coords v)
             (\<lambda>(x, y, z) v.
                let voxel_pos = voxel_to_world v x y z in
                if fill_box_test voxel_pos min_pos max_pos
                then voxel_modify v (get_index v x y z)
                       (\<lambda>q. q\<lparr>active := True, color := col, density := 1\<rparr>)
                else Inr v)
             v of
        Inl e \<Rightarrow> Inl e
      | Inr v' \<Rightarrow> Inr (v'\<lparr>gpu_data_dirty := True, volume_texture_dirty := True\<rparr>))"

text \<open>
  Containment in the axis-aligned box from \<open>min_pos\<close> to \<open>max_pos\<close>, for comparison:
  the bound check on all three axes.
\<close>

definition inside_box :: "vec3 \<Rightarrow> vec3 \<Rightarrow> vec3 \<Rightarrow> bool" where
  "inside_box voxel_pos min_pos max_pos =
     (case (voxel_pos, min_pos, max_pos) of
        ((px, py, pz), (minx, miny, minz), (maxx, maxy, maxz)) \<Rightarrow>
          (px \<ge> minx \<and> px \<le> maxx)
        \<and> (py \<ge> miny \<and> py \<le> maxy)
        \<and> (pz \<ge> minz \<and> pz \<le> maxz))"

subsection \<open>Matrices and images (\<^verbatim>\<open>cv::Mat\<close>)\<close>

text \<open>
  A two-dimensional \<^verbatim>\<open>cv::Mat\<close>: the header fields and the element array, row by row
  with the channels of a pixel next to each other. An 8-bit image has elements of type
  \<open>uint8\<close>, a calibration matrix (\<^verbatim>\<open>CV_64F\<close>) has real elements and one channel.
\<close>

type_synonym uint8 = "8 word"

record 'a mat =
  rows :: int
  cols :: int
  channels :: nat
  elems :: "'a list"

text \<open>\<^verbatim>\<open>cv::Mat()\<close>, and \<^verbatim>\<open>cv::Mat::empty()\<close>: no data or no elements.\<close>

definition Mat :: "'a mat" where
  "Mat = \<lparr>rows = 0, cols = 0, channels = 1, elems = []\<rparr>"

definition mat_empty :: "'a mat \<Rightarrow> bool" where
  "mat_empty m \<longleftrightarrow> elems m = [] \<or> rows m * cols m = 0"

text \<open>The invariant of the class: the array holds \<open>rows * cols * channels\<close> elements.\<close>

definition mat_ok :: "'a mat \<Rightarrow> bool" where
  "mat_ok m \<longleftrightarrow> 0 \<le> rows m \<and> 0 \<le> cols m
     \<and> length (elems m) = nat (rows m) * nat (cols m) * channels m"

text \<open>The element of channel \<open>k\<close> at row \<open>y\<close>, column \<open>x\<close>.\<close>

definition elem :: "'a mat \<Rightarrow> int \<Rightarrow> int \<Rightarrow> nat \<Rightarrow> 'a" where
  "elem m y x k = elems m ! ((nat y * nat (cols m) + nat x) * channels m + k)"

text \<open>A matrix given by its elements, in the layout above.\<close>

definition mat_of :: "int \<Rightarrow> int \<Rightarrow> nat \<Rightarrow> (int \<Rightarrow> int \<Rightarrow> nat \<Rightarrow> 'a) \<Rightarrow> 'a mat" where
  "mat_of r c ch f =
     \<lparr>rows = r, cols = c, channels = ch,
      elems = map (\<lambda>i. f (int ((i div ch) div nat c)) (int ((i div ch) mod nat c)) (i mod ch))
                  [0 ..< nat r * nat c * ch]\<rparr>"

text \<open>
  \<^verbatim>\<open>m.at<T>(y, x)\<close> with a one-byte or one-double element type \<open>T\<close>: the address is
  row \<open>y\<close> times the row step plus \<open>x\<close> elements. OpenCV checks the range in debug
  builds only; an address outside the array is \<open>OutOfRange\<close>.
\<close>

definition mat_at :: "'a mat \<Rightarrow> int \<Rightarrow> int \<Rightarrow> error + 'a" where
  "mat_at m y x =
     (let i = y * (cols m * int (channels m)) + x
      in if 0 \<le> i \<and> i < int (length (elems m)) then Inr (elems m ! nat i)
         else Inl OutOfRange)"

subsection \<open>Views and projects (\<^verbatim>\<open>view.hpp\<close>, \<^verbatim>\<open>project.hpp\<close>)\<close>

text \<open>
  The calibration data, the images and the paths of a \<^verbatim>\<open>View\<close>. The members that
  \<^verbatim>\<open>calibrate_view\<close> derives for display (focal length and principal point, eye,
  look-at, basis vectors, field of view, projection matrix) are read by no function
  below, and are left out.
\<close>

record view =
  intrinsic :: "real mat"
  distortion :: "real mat"
  rvec :: "real mat"
  tvec :: "real mat"
  tvec_proj :: "real mat"
  fg :: "uint8 mat"
  bg :: "uint8 mat"
  mask :: "uint8 mat"
  bg_path :: string
  fg_path :: string
  cb_path :: string

record project =
  empty :: bool
  initialized :: bool
  needs_calibration :: bool
  name :: string
  project_file :: string    \<comment> \<open>the member \<^verbatim>\<open>file\<close>\<close>
  project_dir :: string     \<comment> \<open>the member \<^verbatim>\<open>dir\<close>\<close>
  chess_cols :: int
  chess_rows :: int
  square_size :: real
  views :: "view list"

definition CHESS_PADDING :: real where
  "CHESS_PADDING = 100"

definition VOLUME_VOXEL_SIZE :: int where
  "VOLUME_VOXEL_SIZE = 40"

definition VOLUME_BOX_LENGTH :: int where
  "VOLUME_BOX_LENGTH = 800"

definition DEFAULT_FOV :: real where
  "DEFAULT_FOV = 60"

subsection \<open>The library and the operator\<close>

text \<open>
  The OpenCV routines whose results are numerical estimates, and the key the operator
  presses, are parameters of the model.
  \<^item> \<open>detect_chessboard path (rows, cols)\<close>: \<^verbatim>\<open>imread\<close> of the background image in
    grayscale, \<^verbatim>\<open>findChessboardCorners\<close> and \<^verbatim>\<open>cornerSubPix\<close>; \<open>None\<close> when no board is
    found, else the image and the refined corners.
  \<^item> \<open>wait_key i\<close>: the key returned by \<^verbatim>\<open>waitKey(0)\<close> at the \<open>i\<close>-th preview.
  \<^item> \<open>calibrateCamera\<close>: the camera matrix, the distortion coefficients, and the
    rotation and translation vectors, one per image it was given.
  \<^item> \<open>projectPoints\<close>: the image points of a list of object points.
  \<^item> \<open>bgr2hsv\<close>: the conversion of one 8-bit pixel that \<^verbatim>\<open>cvtColor\<close> with
    \<^verbatim>\<open>COLOR_BGR2HSV\<close> applies to every pixel.
  \<^item> \<open>calibrate_view\<close>: \<^verbatim>\<open>Camera::calibrate_view(View&) const\<close>, which derives the mask
    and the display geometry of the view it is given. It is a \<^verbatim>\<open>const\<close> member that
    opens no file, so all it can change is that view: the parameter yields the view as
    the call leaves it, and the exception if the call raises one. The properties of
    \<^verbatim>\<open>load_project\<close> below hold whatever it computes.
\<close>

record env =
  detect_chessboard :: "string \<Rightarrow> int \<times> int \<Rightarrow> (uint8 mat \<times> (real \<times> real) list) option"
  wait_key :: "nat \<Rightarrow> int"
  calibrateCamera :: "vec3 list list \<Rightarrow> (real \<times> real) list list \<Rightarrow> int \<times> int
                        \<Rightarrow> real mat \<times> real mat \<times> real mat list \<times> real mat list"
  projectPoints :: "vec3 list \<Rightarrow> real mat \<Rightarrow> real mat \<Rightarrow> real mat \<Rightarrow> real mat
                        \<Rightarrow> (real \<times> real) list"
  bgr2hsv :: "uint8 \<times> uint8 \<times> uint8 \<Rightarrow> uint8 \<times> uint8 \<times> uint8"
  calibrate_view :: "view \<Rightarrow> error option \<times> view"

text \<open>\<^verbatim>\<open>cvRound\<close>: the nearest integer, a tie going to the even neighbour.\<close>

definition cvRound :: "real \<Rightarrow> int" where
  "cvRound v =
     (let f = \<lfloor>v\<rfloor>; d = v - of_int f
      in if d < 1 / 2 then f
         else if 1 / 2 < d then f + 1
         else if even f then f else f + 1)"

subsection \<open>Voxel carving (\<^verbatim>\<open>Scene::create_volume\<close>)\<close>

text \<open>\<^verbatim>\<open>std::ranges::all_of\<close>: it stops at the first element that fails the test.\<close>

fun all_of :: "'a list \<Rightarrow> ('a \<Rightarrow> error + bool) \<Rightarrow> error + bool" where
  "all_of [] pred = Inr True"
| "all_of (a # as) pred =
     (case pred a of
        Inl e \<Rightarrow> Inl e
      | Inr b \<Rightarrow> if b then all_of as pred else Inr False)"

definition voxel_visible :: "env \<Rightarrow> view \<Rightarrow> vec3 \<Rightarrow> error + bool" where
  "voxel_visible en vw vox_pos =
     (if mat_empty (mask vw) then Inr False
      else
        let obj_pts = [vox_pos];
            img_pts = projectPoints en obj_pts (rvec vw) (tvec_proj vw)
                        (intrinsic vw) (distortion vw)
        in case img_pts of
             [] \<Rightarrow> Inr False
           | pt # _ \<Rightarrow>
               let px = cvRound (fst pt);
                   py = cvRound (snd pt)
               in if px < 0 \<or> px \<ge> cols (mask vw) \<or> py < 0 \<or> py \<ge> rows (mask vw)
                  then Inr False
                  else (case mat_at (mask vw) py px of
                          Inl e \<Rightarrow> Inl e
                        | Inr b \<Rightarrow> Inr (b = 255)))"

definition num_x :: int where
  "num_x = (VOLUME_BOX_LENGTH * 2) div VOLUME_VOXEL_SIZE"

definition num_y :: int where
  "num_y = (VOLUME_BOX_LENGTH * 2) div VOLUME_VOXEL_SIZE"

definition num_z :: int where
  "num_z = VOLUME_BOX_LENGTH div VOLUME_VOXEL_SIZE"

text \<open>
  The position of the voxel with grid indices \<open>(xi, yi, zi)\<close> in calibration (OpenCV)
  coordinates, as the loop body computes it.
\<close>

definition carve_position :: "int \<Rightarrow> int \<Rightarrow> int \<Rightarrow> vec3" where
  "carve_position xi yi zi =
     (let x = - VOLUME_BOX_LENGTH + xi * VOLUME_VOXEL_SIZE;
          y = - VOLUME_BOX_LENGTH + yi * VOLUME_VOXEL_SIZE;
          z = zi * VOLUME_VOXEL_SIZE
      in (of_int x, of_int y, of_int z))"

text \<open>
  One iteration of the loop over the flattened index. The operands of \<^verbatim>\<open>/\<close> and \<^verbatim>\<open>%\<close>
  are non-negative and the divisors positive, where C++ division is \<open>div\<close> and \<open>mod\<close>.
  The state is the list \<^verbatim>\<open>local_voxels\<close> and the volume.
\<close>

definition carve_voxel ::
  "env \<Rightarrow> view list \<Rightarrow> int \<Rightarrow> (int \<times> int \<times> int) list \<times> volume
     \<Rightarrow> error + (int \<times> int \<times> int) list \<times> volume" where
  "carve_voxel en vws idx st =
     (let xi = idx div (num_y * num_z);
          yi = (idx div num_z) mod num_y;
          zi = idx mod num_z;
          x = - VOLUME_BOX_LENGTH + xi * VOLUME_VOXEL_SIZE;
          y = - VOLUME_BOX_LENGTH + yi * VOLUME_VOXEL_SIZE;
          z = zi * VOLUME_VOXEL_SIZE
      in case all_of vws (\<lambda>vw. voxel_visible en vw (of_int x, of_int y, of_int z)) of
           Inl e \<Rightarrow> Inl e
         | Inr all_visible \<Rightarrow>
             if all_visible then
               (case set_voxel_active (snd st) xi yi zi True of
                  Inl e \<Rightarrow> Inl e
                | Inr v1 \<Rightarrow>
                    (case set_voxel_color v1 xi yi zi (0.8, 0.3, 0.2, 0.9) of
                       Inl e \<Rightarrow> Inl e
                     | Inr v2 \<Rightarrow> Inr (fst st @ [(x, z, - y)], v2)))
             else Inr st)"

text \<open>
  \<^verbatim>\<open>Scene::create_volume\<close>, returning the volume it stores in \<^verbatim>\<open>volume_\<close>. The OpenMP
  loop hands the indices to several threads; every iteration writes the slot of its own
  voxel only, and the model runs the iterations in index order with one list of
  \<^verbatim>\<open>local_voxels\<close>.
\<close>

definition create_volume :: "env \<Rightarrow> view list \<Rightarrow> error + volume" where
  "create_volume en vws =
     (case Volume num_x num_y num_z (of_int VOLUME_VOXEL_SIZE) of
        Inl e \<Rightarrow> Inl e
      | Inr v0 \<Rightarrow>
          (case for_each [0 .. num_x * num_y * num_z - 1] (carve_voxel en vws) ([], v0) of
             Inl e \<Rightarrow> Inl e
           | Inr st \<Rightarrow> Inr (initialize (snd st))))"

subsection \<open>Calibration (\<^verbatim>\<open>Camera::run_calibration\<close>)\<close>

text \<open>
  The object points of the chessboard. \<^verbatim>\<open>i / rows\<close> and \<^verbatim>\<open>i % rows\<close> are the truncating
  division and remainder of C++.
\<close>

definition chessboard_points :: "project \<Rightarrow> vec3 list" where
  "chessboard_points p =
     map (\<lambda>i. (of_int (i sdiv chess_rows p) * (square_size p + CHESS_PADDING),
               of_int (i smod chess_rows p) * (square_size p + CHESS_PADDING),
               0))
         [0 .. chess_cols p * chess_rows p - 1]"

text \<open>The loop over the views that collects \<^verbatim>\<open>images\<close> and \<^verbatim>\<open>image_points\<close>: one entry
  for each view with a detected board, in the order of the views.\<close>

definition detections :: "env \<Rightarrow> project \<Rightarrow> (uint8 mat \<times> (real \<times> real) list) list" where
  "detections en p =
     List.map_filter (\<lambda>vw. detect_chessboard en (bg_path vw) (chess_rows p, chess_cols p))
       (views p)"

text \<open>
  The body of the loop that saves the results: \<^verbatim>\<open>project_->views[i]\<close> receives the
  shared matrices and \<^verbatim>\<open>rvecs[i]\<close>, \<^verbatim>\<open>tvecs[i]\<close>, where \<open>i\<close> counts the images.
\<close>

definition save_result ::
  "real mat \<Rightarrow> real mat \<Rightarrow> real mat list \<Rightarrow> real mat list \<Rightarrow> nat \<Rightarrow> project
     \<Rightarrow> error + project" where
  "save_result camera_matrix distortion_coeffs rvecs tvecs i p =
     (if i < length (views p) \<and> i < length rvecs \<and> i < length tvecs
      then Inr (p\<lparr>views := (views p)[i := (views p ! i)
                   \<lparr>intrinsic := camera_matrix,
                    distortion := distortion_coeffs,
                    rvec := rvecs ! i,
                    tvec := tvecs ! i\<rparr>]\<rparr>)
      else Inl OutOfRange)"

definition run_calibration :: "env \<Rightarrow> project \<Rightarrow> error + project" where
  "run_calibration en p =
     (let obj_points = chessboard_points p;
          found = detections en p;
          images = map fst found;
          image_points = map snd found;
          object_points = map (\<lambda>_. obj_points) found
      in case for_each [0 ..< length images]
                (\<lambda>i u. if wait_key en i = 27 then Inl CalibrationAborted else Inr u) () of
           Inl e \<Rightarrow> Inl e
         | Inr _ \<Rightarrow>
             if real (length images) < real (length (views p)) * 0.75
             then Inl CalibrationFailed
             else (case images of
                     [] \<Rightarrow> Inl OutOfRange
                   | img0 # _ \<Rightarrow>
                       (case calibrateCamera en object_points image_points
                               (cols img0, rows img0) of
                          (camera_matrix, distortion_coeffs, rvecs, tvecs) \<Rightarrow>
                            for_each [0 ..< length images]
                              (save_result camera_matrix distortion_coeffs rvecs tvecs) p)))"

subsection \<open>Calibration records\<close>

text \<open>
  A calibration record is a file of named matrices; the file system maps a path to the
  content of the file at that path. Opening a file for writing creates or replaces it,
  and a file that exists can be opened for reading.
\<close>

type_synonym calibration_record = "(string \<times> real mat) list"
type_synonym files = "string \<rightharpoonup> calibration_record"

definition record_of :: "view \<Rightarrow> calibration_record" where
  "record_of vw =
     [(''camera_matrix'', intrinsic vw),
      (''dist_coeffs'', distortion vw),
      (''rvec'', rvec vw),
      (''tvec'', tvec vw)]"

definition write_calibration :: "project \<Rightarrow> files \<Rightarrow> files" where
  "write_calibration p fs = fold (\<lambda>vw fs'. fs'(cb_path vw \<mapsto> record_of vw)) (views p) fs"

text \<open>\<^verbatim>\<open>file_storage["key"] >> m\<close>: the matrix stored under the key, or an empty matrix.\<close>

definition read_node :: "calibration_record \<Rightarrow> string \<Rightarrow> real mat" where
  "read_node r key = (case map_of r key of None \<Rightarrow> Mat | Some m \<Rightarrow> m)"

definition read_view :: "files \<Rightarrow> view \<Rightarrow> bool \<times> view" where
  "read_view fs vw =
     (if cb_path vw = [] then (False, vw)
      else case fs (cb_path vw) of
             None \<Rightarrow> (False, vw)
           | Some r \<Rightarrow>
               (True, vw\<lparr>intrinsic := read_node r ''camera_matrix'',
                         distortion := read_node r ''dist_coeffs'',
                         rvec := read_node r ''rvec'',
                         tvec := read_node r ''tvec''\<rparr>))"

definition read_calibration :: "project \<Rightarrow> files \<Rightarrow> bool \<times> project" where
  "read_calibration p fs =
     (list_all (\<lambda>vw. fst (read_view fs vw)) (views p),
      p\<lparr>views := map (\<lambda>vw. snd (read_view fs vw)) (views p)\<rparr>)"

subsection \<open>Loading a project (\<^verbatim>\<open>Camera::load_project\<close>)\<close>

text \<open>The loop \<^verbatim>\<open>for (auto& view : project_->views) calibrate_view(view)\<close>: an exception
  leaves the views after the failing one as they were.\<close>

fun calibrate_views :: "env \<Rightarrow> view list \<Rightarrow> error option \<times> view list" where
  "calibrate_views en [] = (None, [])"
| "calibrate_views en (vw # vws) =
     (case calibrate_view en vw of
        (Some e, vw') \<Rightarrow> (Some e, vw' # vws)
      | (None, vw') \<Rightarrow>
          (case calibrate_views en vws of (r, vws') \<Rightarrow> (r, vw' # vws')))"

text \<open>
  \<^verbatim>\<open>Camera::load_project\<close> on the project and the file system. The result is the
  exception that leaves the function, if any, and the project and the files as the
  function leaves them. The members of \<^verbatim>\<open>Camera\<close> that hold the current and the
  free-form view are display state and are left out.
\<close>

definition load_project :: "env \<Rightarrow> project \<Rightarrow> files \<Rightarrow> error option \<times> project \<times> files" where
  "load_project en p fs =
     (case (if needs_calibration p
            then (case run_calibration en p of
                    Inl e \<Rightarrow> Inl e
                  | Inr p1 \<Rightarrow> Inr (p1, write_calibration p1 fs))
            else Inr (snd (read_calibration p fs), fs)) of
        Inl e \<Rightarrow> (Some e, p, fs)
      | Inr (p1, fs1) \<Rightarrow>
          (case calibrate_views en (views p1) of
             (Some e, vws) \<Rightarrow> (Some e, p1\<lparr>views := vws\<rparr>, fs1)
           | (None, vws) \<Rightarrow>
               (None,
                p1\<lparr>views := vws, empty := False, initialized := True,
                   needs_calibration := False\<rparr>,
                fs1)))"

subsection \<open>OpenCV image operations used by \<^verbatim>\<open>calc_mask\<close>\<close>

text \<open>
  The element-wise and morphological operations of OpenCV on 8-bit images, after the
  library's documentation. An operation whose precondition fails raises \<open>CvError\<close>.
\<close>

text \<open>\<^verbatim>\<open>cvtColor(src, dst, COLOR_BGR2HSV)\<close>: the source has three or four channels, blue,
  green, red first; the result has the three channels hue, saturation, value.\<close>

definition cvtColor_BGR2HSV :: "env \<Rightarrow> uint8 mat \<Rightarrow> error + uint8 mat" where
  "cvtColor_BGR2HSV en src =
     (if mat_empty src \<or> (channels src \<noteq> 3 \<and> channels src \<noteq> 4) then Inl CvError
      else Inr (mat_of (rows src) (cols src) 3
                  (\<lambda>y x k. case bgr2hsv en (elem src y x 0, elem src y x 1, elem src y x 2) of
                              (h, s, v) \<Rightarrow> if k = 0 then h else if k = 1 then s else v)))"

text \<open>\<^verbatim>\<open>split\<close>: one single-channel image per channel.\<close>

definition split :: "'a mat \<Rightarrow> 'a mat list" where
  "split src =
     map (\<lambda>k. mat_of (rows src) (cols src) 1 (\<lambda>y x _. elem src y x k)) [0 ..< channels src]"

definition same_size :: "'a mat \<Rightarrow> 'b mat \<Rightarrow> bool" where
  "same_size a b \<longleftrightarrow> rows a = rows b \<and> cols a = cols b \<and> channels a = channels b"

text \<open>An element-wise operation on two images of the same size and type.\<close>

definition pointwise2 :: "(uint8 \<Rightarrow> uint8 \<Rightarrow> uint8) \<Rightarrow> uint8 mat \<Rightarrow> uint8 mat \<Rightarrow> error + uint8 mat" where
  "pointwise2 f a b =
     (if \<not> same_size a b then Inl CvError
      else Inr (mat_of (rows a) (cols a) (channels a)
                  (\<lambda>y x k. f (elem a y x k) (elem b y x k))))"

definition absdiff :: "uint8 mat \<Rightarrow> uint8 mat \<Rightarrow> error + uint8 mat" where
  "absdiff a b = pointwise2 (\<lambda>p q. if p \<le> q then q - p else p - q) a b"

definition bitwise_and :: "uint8 mat \<Rightarrow> uint8 mat \<Rightarrow> error + uint8 mat" where
  "bitwise_and a b = pointwise2 (\<lambda>p q. p AND q) a b"

definition bitwise_or :: "uint8 mat \<Rightarrow> uint8 mat \<Rightarrow> error + uint8 mat" where
  "bitwise_or a b = pointwise2 (\<lambda>p q. p OR q) a b"

text \<open>\<^verbatim>\<open>threshold(src, dst, thresh, maxval, THRESH_BINARY)\<close>: \<open>maxval\<close> where the source
  is greater than \<open>thresh\<close>, 0 elsewhere.\<close>

definition threshold :: "uint8 mat \<Rightarrow> int \<Rightarrow> uint8 \<Rightarrow> uint8 mat" where
  "threshold src thresh maxval =
     mat_of (rows src) (cols src) (channels src)
       (\<lambda>y x k. if uint (elem src y x k) > thresh then maxval else 0)"

text \<open>
  \<^verbatim>\<open>getStructuringElement(MORPH_CROSS, Size(w, h))\<close>: ones on the middle row and the
  middle column. \<^verbatim>\<open>MORPH_RECT\<close>: ones everywhere; an empty kernel passed to
  \<^verbatim>\<open>erode\<close> or \<^verbatim>\<open>dilate\<close> stands for the 3 x 3 rectangle.
\<close>

definition getStructuringElement_CROSS :: "int \<times> int \<Rightarrow> uint8 mat" where
  "getStructuringElement_CROSS ksize =
     (case ksize of (w, h) \<Rightarrow>
        mat_of h w 1 (\<lambda>y x _. if y = h div 2 \<or> x = w div 2 then 1 else 0))"

definition getStructuringElement_RECT :: "int \<times> int \<Rightarrow> uint8 mat" where
  "getStructuringElement_RECT ksize =
     (case ksize of (w, h) \<Rightarrow> mat_of h w 1 (\<lambda>y x _. 1))"

text \<open>The offsets, from the anchor at the centre, of the non-zero kernel elements.\<close>

definition kernel_offsets :: "uint8 mat \<Rightarrow> (int \<times> int) list" where
  "kernel_offsets ker =
     (let k = (if mat_empty ker then getStructuringElement_RECT (3, 3) else ker)
      in concat (map (\<lambda>ky. concat (map (\<lambda>kx. if elem k ky kx 0 \<noteq> 0
                                                then [(ky - rows k div 2, kx - cols k div 2)]
                                                else [])
                                         [0 .. cols k - 1]))
                     [0 .. rows k - 1]))"

text \<open>
  The values under the kernel at pixel \<open>(y, x)\<close>; a position outside the image has the
  border value: the largest value for an erosion, the smallest for a dilation.
\<close>

definition neighbourhood :: "uint8 mat \<Rightarrow> (int \<times> int) list \<Rightarrow> uint8 \<Rightarrow> int \<Rightarrow> int \<Rightarrow> nat \<Rightarrow> uint8 list" where
  "neighbourhood src offs border y x k =
     map (\<lambda>(dy, dx).
            if 0 \<le> y + dy \<and> y + dy < rows src \<and> 0 \<le> x + dx \<and> x + dx < cols src
            then elem src (y + dy) (x + dx) k else border)
         offs"

definition erode :: "uint8 mat \<Rightarrow> uint8 mat \<Rightarrow> uint8 mat" where
  "erode src ker =
     mat_of (rows src) (cols src) (channels src)
       (\<lambda>y x k. fold min (neighbourhood src (kernel_offsets ker) 255 y x k) 255)"

definition dilate_once :: "uint8 mat \<Rightarrow> uint8 mat \<Rightarrow> uint8 mat" where
  "dilate_once src ker =
     mat_of (rows src) (cols src) (channels src)
       (\<lambda>y x k. fold max (neighbourhood src (kernel_offsets ker) 0 y x k) 0)"

text \<open>\<^verbatim>\<open>dilate\<close> with an iteration count: a kernel that is not a full rectangle is
  applied that many times.\<close>

definition dilate :: "uint8 mat \<Rightarrow> uint8 mat \<Rightarrow> nat \<Rightarrow> uint8 mat" where
  "dilate src ker iterations = ((\<lambda>m. dilate_once m ker) ^^ iterations) src"

subsection \<open>Mask extraction (\<^verbatim>\<open>Camera::calc_mask\<close>)\<close>

definition THRESHOLD_H :: int where
  "THRESHOLD_H = 20"

definition THRESHOLD_S :: int where
  "THRESHOLD_S = 20"

definition THRESHOLD_V :: int where
  "THRESHOLD_V = 40"

definition calc_mask :: "env \<Rightarrow> uint8 mat \<Rightarrow> uint8 mat \<Rightarrow> error + uint8 mat" where
  "calc_mask en fg_img bg_img =
     and_then (cvtColor_BGR2HSV en fg_img) (\<lambda>fg_hsv.
     and_then (cvtColor_BGR2HSV en bg_img) (\<lambda>bg_hsv.
       (case (split fg_hsv, split bg_hsv) of
          ([fg_h, fg_s, fg_v], [bg_h, bg_s, bg_v]) \<Rightarrow>
            and_then (absdiff fg_h bg_h) (\<lambda>diff_h.
            and_then (absdiff fg_s bg_s) (\<lambda>diff_s.
            and_then (absdiff fg_v bg_v) (\<lambda>diff_v.
              (let maxval = 255;
                   mask_h = threshold diff_h THRESHOLD_H maxval;
                   mask_s = threshold diff_s THRESHOLD_S maxval;
                   mask_v = threshold diff_v THRESHOLD_V maxval
               in and_then (bitwise_and mask_h mask_s) (\<lambda>mask0.
                  and_then (bitwise_or mask0 mask_v) (\<lambda>mask1.
                    (let mask2 = erode mask1 Mat;
                         mask3 = dilate mask2 (getStructuringElement_CROSS (5, 5)) 2;
                         mask4 = erode mask3 Mat
                     in Inr mask4)))))))
        | _ \<Rightarrow> Inl OutOfRange)))"

subsection \<open>Projection matrix (\<^verbatim>\<open>Camera::calc_proj\<close>)\<close>

text \<open>
  A \<^verbatim>\<open>glm::mat4\<close> is a list of four columns of four entries: \<^verbatim>\<open>m[c][r]\<close> is entry \<open>r\<close> of
  column \<open>c\<close>. \<^verbatim>\<open>glm::mat4(s)\<close> has \<open>s\<close> on the diagonal and zero elsewhere.
\<close>

type_synonym mat4 = "real list list"

definition mat4_diag :: "real \<Rightarrow> mat4" where
  "mat4_diag s = map (\<lambda>c. map (\<lambda>r. if r = c then s else 0) [0 ..< 4]) [0 ..< 4]"

definition mat4_set :: "mat4 \<Rightarrow> nat \<Rightarrow> nat \<Rightarrow> real \<Rightarrow> mat4" where
  "mat4_set m c r a = m[c := (m ! c)[r := a]]"

text \<open>\<^verbatim>\<open>glm::radians\<close> and \<^verbatim>\<open>glm::perspective\<close> (right-handed, depth from -1 to 1, the
  default of GLM).\<close>

definition glm_radians :: "real \<Rightarrow> real" where
  "glm_radians degrees = degrees * (pi / 180)"

definition glm_perspective :: "real \<Rightarrow> real \<Rightarrow> real \<Rightarrow> real \<Rightarrow> mat4" where
  "glm_perspective fovy aspect zNear zFar =
     (let tanHalfFovy = tan (fovy / 2);
          m0 = mat4_diag 0;
          m1 = mat4_set m0 0 0 (1 / (aspect * tanHalfFovy));
          m2 = mat4_set m1 1 1 (1 / tanHalfFovy);
          m3 = mat4_set m2 2 2 (- (zFar + zNear) / (zFar - zNear));
          m4 = mat4_set m3 2 3 (- 1);
          m5 = mat4_set m4 3 2 (- (2 * zFar * zNear) / (zFar - zNear))
      in m5)"

definition common_res :: "(int \<times> int) list" where
  "common_res = [(640, 480), (800, 600), (1024, 768), (1280, 720), (1280, 960), (1920, 1080)]"

text \<open>
  The loop that guesses the calibration resolution. The state is \<^verbatim>\<open>best_err\<close>,
  \<^verbatim>\<open>calib_w\<close>, \<^verbatim>\<open>calib_h\<close>; \<open>None\<close> is the initial \<^verbatim>\<open>best_err\<close>, the largest \<^verbatim>\<open>double\<close>,
  which every error is below.
\<close>

definition guess_resolution :: "real \<Rightarrow> real \<Rightarrow> real option \<times> real \<times> real" where
  "guess_resolution cx cy =
     fold (\<lambda>(rx, ry) (best_err, calib_w, calib_h).
             if cx < of_int rx \<and> cy < of_int ry then
               (let err = \<bar>cx - of_int rx / 2\<bar> / (of_int rx / 2)
                        + \<bar>cy - of_int ry / 2\<bar> / (of_int ry / 2)
                in if (case best_err of None \<Rightarrow> True | Some b \<Rightarrow> err < b)
                   then (Some err, of_int rx, of_int ry)
                   else (best_err, calib_w, calib_h))
             else (best_err, calib_w, calib_h))
          common_res (None, cx * 2, cy * 2)"

definition calc_proj :: "real mat \<Rightarrow> real \<Rightarrow> real \<Rightarrow> real \<Rightarrow> real \<Rightarrow> error + mat4" where
  "calc_proj intrinsic_m w h near_plane far_plane =
     (if mat_empty intrinsic_m \<or> rows intrinsic_m < 3 \<or> cols intrinsic_m < 3
      then Inr (glm_perspective (glm_radians DEFAULT_FOV) (w / h) near_plane far_plane)
      else
        and_then (mat_at intrinsic_m 0 0) (\<lambda>fx.
        and_then (mat_at intrinsic_m 1 1) (\<lambda>fy.
        and_then (mat_at intrinsic_m 0 2) (\<lambda>cx.
        and_then (mat_at intrinsic_m 1 2) (\<lambda>cy.
          (case guess_resolution cx cy of
             (best_err, calib_w, calib_h) \<Rightarrow>
               (let scale = min (w / calib_w) (h / calib_h);
                    fx_s = fx * scale;
                    fy_s = fy * scale;
                    cx_s = cx * scale + (w - calib_w * scale) * 0.5;
                    cy_s = cy * scale + (h - calib_h * scale) * 0.5;
                    p0 = mat4_diag 0;
                    p1 = mat4_set p0 0 0 (2 * fx_s / w);
                    p2 = mat4_set p1 1 1 (2 * fy_s / h);
                    p3 = mat4_set p2 2 0 (1 - 2 * cx_s / w);
                    p4 = mat4_set p3 2 1 (2 * cy_s / h - 1);
                    p5 = mat4_set p4 2 2 (- (far_plane + near_plane) / (far_plane - near_plane));
                    p6 = mat4_set p5 2 3 (- 1);
                    p7 = mat4_set p6 3 2 (- 2 * far_plane * near_plane / (far_plane - near_plane))
                in Inr p7)))))))"

section \<open>Notions used to state the properties\<close>

text \<open>
  The invariant that the constructor of \<^verbatim>\<open>Volume\<close> establishes: the array holds one
  voxel for each grid coordinate.
\<close>

definition volume_ok :: "volume \<Rightarrow> bool" where
  "volume_ok v \<longleftrightarrow> 0 \<le> width v \<and> 0 \<le> height v \<and> 0 \<le> depth v
     \<and> length (voxels v) = nat (width v * height v * depth v)"

text \<open>What a loop over the grid leaves unchanged: the dimensions, the voxel size and the
  number of voxels.\<close>

definition grid_shape :: "volume \<Rightarrow> int \<times> int \<times> int \<times> real \<times> nat" where
  "grid_shape v = (width v, height v, depth v, voxel_size v, length (voxels v))"

text \<open>A mask as \<^verbatim>\<open>calc_mask\<close> produces it, or the empty default: a single channel.\<close>

definition mask_ok :: "uint8 mat \<Rightarrow> bool" where
  "mask_ok m \<longleftrightarrow> mat_ok m \<and> channels m = 1"

text \<open>
  The visibility test in the words of the specification. The projected pixel of a
  position under a view is the first image point, rounded; a position is visible in the
  view iff the view has a mask, the projected pixel lies inside the bounds of the mask
  image, and the mask is fully on (255) at that pixel.
\<close>

definition projected_pixel :: "env \<Rightarrow> view \<Rightarrow> vec3 \<Rightarrow> (int \<times> int) option" where
  "projected_pixel en vw pos =
     (case projectPoints en [pos] (rvec vw) (tvec_proj vw) (intrinsic vw) (distortion vw) of
        [] \<Rightarrow> None
      | pt # _ \<Rightarrow> Some (cvRound (fst pt), cvRound (snd pt)))"

definition silhouette_visible :: "env \<Rightarrow> view \<Rightarrow> vec3 \<Rightarrow> bool" where
  "silhouette_visible en vw pos \<longleftrightarrow>
     \<not> mat_empty (mask vw)
     \<and> (case projected_pixel en vw pos of
          None \<Rightarrow> False
        | Some (px, py) \<Rightarrow>
            0 \<le> px \<and> px < cols (mask vw) \<and> 0 \<le> py \<and> py < rows (mask vw)
            \<and> elem (mask vw) py px 0 = 255)"

text \<open>A colour image of the data model: a non-empty 8-bit pixel grid of 3 or 4 channels.\<close>

definition image_ok :: "uint8 mat \<Rightarrow> bool" where
  "image_ok im \<longleftrightarrow> mat_ok im \<and> \<not> mat_empty im \<and> (channels im = 3 \<or> channels im = 4)"

text \<open>
  The raw mask in the words of the specification: convert both images to
  hue/saturation/value, take the absolute difference of each channel, and mark a pixel
  fully on iff the hue and the saturation differences both exceed 20, or the value
  difference exceeds 40.
\<close>

definition hsv_at :: "env \<Rightarrow> uint8 mat \<Rightarrow> int \<Rightarrow> int \<Rightarrow> uint8 \<times> uint8 \<times> uint8" where
  "hsv_at en im y x = bgr2hsv en (elem im y x 0, elem im y x 1, elem im y x 2)"

definition channel_diff :: "uint8 \<Rightarrow> uint8 \<Rightarrow> int" where
  "channel_diff a b = \<bar>uint a - uint b\<bar>"

definition difference_mask :: "env \<Rightarrow> uint8 mat \<Rightarrow> uint8 mat \<Rightarrow> uint8 mat" where
  "difference_mask en fg_img bg_img =
     mat_of (rows fg_img) (cols fg_img) 1
       (\<lambda>y x _. case (hsv_at en fg_img y x, hsv_at en bg_img y x) of
                   ((h1, s1, v1), (h2, s2, v2)) \<Rightarrow>
                     if (channel_diff h1 h2 > 20 \<and> channel_diff s1 s2 > 20)
                        \<or> channel_diff v1 v2 > 40
                     then 255 else 0)"

text \<open>A mask whose pixels are fully off (0) or fully on (255).\<close>

definition binary_mask :: "uint8 mat \<Rightarrow> bool" where
  "binary_mask m \<longleftrightarrow>
     (\<forall>y x k. 0 \<le> y \<and> y < rows m \<and> 0 \<le> x \<and> x < cols m \<and> k < channels m
        \<longrightarrow> elem m y x k = 0 \<or> elem m y x k = 255)"

section \<open>Example data\<close>

text \<open>A grid of two voxels, both inactive, with the positions the constructor gives them.\<close>

definition box_volume :: volume where
  "box_volume =
     \<lparr>gpu_data_dirty = False, volume_texture_dirty = False,
      width = 2, height = 1, depth = 1, voxel_size = 1,
      rendered_voxel_count = 0,
      voxels = [Voxel\<lparr>position := (- 1, 1 / 2, 1 / 2)\<rparr>, Voxel\<lparr>position := (0, 1 / 2, 1 / 2)\<rparr>],
      render_mode = VOXEL_CUBES\<rparr>"

text \<open>\<^verbatim>\<open>cv::Mat::zeros(r, c, CV_64F)\<close>, \<^verbatim>\<open>cv::Mat::eye(3, 3, CV_64F)\<close> and a column vector
  with three equal entries.\<close>

definition eye3 :: "real mat" where
  "eye3 = \<lparr>rows = 3, cols = 3, channels = 1, elems = [1, 0, 0, 0, 1, 0, 0, 0, 1]\<rparr>"

definition zeros :: "int \<Rightarrow> int \<Rightarrow> real mat" where
  "zeros r c = \<lparr>rows = r, cols = c, channels = 1, elems = replicate (nat r * nat c) 0\<rparr>"

definition column3 :: "real \<Rightarrow> real mat" where
  "column3 a = \<lparr>rows = 3, cols = 1, channels = 1, elems = [a, a, a]\<rparr>"

text \<open>A view as \<^verbatim>\<open>View()\<close> initialises it, with the given paths and mask.\<close>

definition view_at :: "string \<Rightarrow> string \<Rightarrow> uint8 mat \<Rightarrow> view" where
  "view_at background record_path m =
     \<lparr>intrinsic = zeros 3 3, distortion = zeros 1 5,
      rvec = zeros 3 1, tvec = zeros 3 1, tvec_proj = zeros 3 1,
      fg = Mat, bg = Mat, mask = m,
      bg_path = background, fg_path = [], cb_path = record_path\<rparr>"

text \<open>
  An environment in which a board is found exactly in the listed background images,
  at the listed corners; the operator presses Enter at every preview; the calibration
  returns a pose for each image that names the first corner of the image; every object
  point projects to the pixel (0, 0).
\<close>

definition studio :: "(string \<times> (real \<times> real) list) list \<Rightarrow> env" where
  "studio seen =
     \<lparr>detect_chessboard = (\<lambda>path size. map_option (\<lambda>corners. (Mat, corners)) (map_of seen path)),
      wait_key = (\<lambda>i. 13),
      calibrateCamera = (\<lambda>object_points image_points size.
         (eye3, zeros 1 5,
          map (\<lambda>corners. column3 (case corners of [] \<Rightarrow> 0 | pt # _ \<Rightarrow> fst pt)) image_points,
          map (\<lambda>corners. column3 (case corners of [] \<Rightarrow> 0 | pt # _ \<Rightarrow> snd pt)) image_points)),
      projectPoints = (\<lambda>pts r t k d. map (\<lambda>p. (0, 0)) pts),
      bgr2hsv = (\<lambda>p. p),
      calibrate_view = (\<lambda>vw. (None, vw))\<rparr>"

text \<open>A project of four views, to be calibrated.\<close>

definition four_views :: project where
  "four_views =
     \<lparr>empty = True, initialized = False, needs_calibration = True,
      name = ''demo'', project_file = ''demo.json'', project_dir = [],
      chess_cols = 7, chess_rows = 7, square_size = 22,
      views = [view_at ''bg1.png'' ''cb1.yml'' Mat, view_at ''bg2.png'' ''cb2.yml'' Mat,
               view_at ''bg3.png'' ''cb3.yml'' Mat, view_at ''bg4.png'' ''cb4.yml'' Mat]\<rparr>"

text \<open>The board is found in the images of the views 2, 3 and 4, not in that of view 1.\<close>

definition first_view_fails :: env where
  "first_view_fails =
     studio [(''bg2.png'', [(2, 20)]), (''bg3.png'', [(3, 30)]), (''bg4.png'', [(4, 40)])]"

text \<open>The project as \<^verbatim>\<open>run_calibration\<close> leaves it then: the three poses are stored in
  the views 1, 2 and 3.\<close>

definition shifted_views :: project where
  "shifted_views =
     four_views\<lparr>views :=
       [(view_at ''bg1.png'' ''cb1.yml'' Mat)
          \<lparr>intrinsic := eye3, distortion := zeros 1 5, rvec := column3 2, tvec := column3 20\<rparr>,
        (view_at ''bg2.png'' ''cb2.yml'' Mat)
          \<lparr>intrinsic := eye3, distortion := zeros 1 5, rvec := column3 3, tvec := column3 30\<rparr>,
        (view_at ''bg3.png'' ''cb3.yml'' Mat)
          \<lparr>intrinsic := eye3, distortion := zeros 1 5, rvec := column3 4, tvec := column3 40\<rparr>,
        view_at ''bg4.png'' ''cb4.yml'' Mat]\<rparr>"

text \<open>The board is found in the images of the views 2 and 3 only.\<close>

definition two_views_fail :: env where
  "two_views_fail = studio [(''bg2.png'', [(2, 20)]), (''bg3.png'', [(3, 30)])]"

text \<open>A mask of one pixel, fully on.\<close>

definition white_pixel :: "uint8 mat" where
  "white_pixel = \<lparr>rows = 1, cols = 1, channels = 1, elems = [255]\<rparr>"

text \<open>Two images of one pixel, blue and red (the channels are blue, green, red).\<close>

definition blue_pixel :: "uint8 mat" where
  "blue_pixel = \<lparr>rows = 1, cols = 1, channels = 3, elems = [255, 0, 0]\<rparr>"

definition red_pixel :: "uint8 mat" where
  "red_pixel = \<lparr>rows = 1, cols = 1, channels = 3, elems = [0, 0, 255]\<rparr>"

section \<open>Properties\<close>

subsection \<open>Index arithmetic of the grid\<close>

lemma index_bounds:
  fixes x y z w h d :: int
  assumes "0 \<le> x" "x < w" "0 \<le> y" "y < h" "0 \<le> z" "z < d"
  shows "0 \<le> z * w * h + y * w + x" and "z * w * h + y * w + x < w * h * d"
proof -
  have w: "0 < w" and h: "0 < h" using assms by auto
  show "0 \<le> z * w * h + y * w + x" using assms w h by simp
  have "y * w + x \<le> (h - 1) * w + (w - 1)"
    using assms w by (intro add_mono mult_right_mono) auto
  then have yx: "y * w + x < h * w" by (simp add: algebra_simps)
  have "z * (w * h) \<le> (d - 1) * (w * h)"
    using assms w h by (intro mult_right_mono) auto
  then have "z * w * h + (y * w + x) < (d - 1) * (w * h) + h * w"
    using yx by (simp add: mult.assoc)
  then show "z * w * h + y * w + x < w * h * d" by (simp add: algebra_simps)
qed

lemma index_decompose:
  fixes x y z w h :: int
  assumes "0 \<le> x" "x < w" "0 \<le> y" "y < h"
  shows "(z * w * h + y * w + x) mod w = x"
    and "((z * w * h + y * w + x) div w) mod h = y"
    and "((z * w * h + y * w + x) div w) div h = z"
proof -
  have e: "z * w * h + y * w + x = (z * h + y) * w + x" by (simp add: algebra_simps)
  show "(z * w * h + y * w + x) mod w = x" using assms by (simp add: e)
  have d: "(z * w * h + y * w + x) div w = z * h + y" using assms by (simp add: e)
  show "((z * w * h + y * w + x) div w) mod h = y" using assms by (simp add: d)
  show "((z * w * h + y * w + x) div w) div h = z" using assms by (simp add: d)
qed

lemma index_inj:
  fixes x y z x' y' z' w h :: int
  assumes "0 \<le> x" "x < w" "0 \<le> y" "y < h" "0 \<le> x'" "x' < w" "0 \<le> y'" "y' < h"
    and "z * w * h + y * w + x = z' * w * h + y' * w + x'"
  shows "x = x' \<and> y = y' \<and> z = z'"
  using index_decompose[of x w y h z] index_decompose[of x' w y' h z'] assms by metis

lemma set_grid_coords:
  "set (grid_coords v) = {(x, y, z). is_valid_coordinate v x y z}"
proof -
  have "\<And>a b c. 0 \<le> a \<Longrightarrow> a < width v \<Longrightarrow> 0 \<le> b \<Longrightarrow> b < height v \<Longrightarrow> 0 \<le> c \<Longrightarrow> c < depth v
     \<Longrightarrow> \<exists>z\<in>{0..depth v - 1}. \<exists>y\<in>{0..height v - 1}. (a, b, c) \<in> (\<lambda>x. (x, y, z)) ` {0..width v - 1}"
    by (metis (mono_tags, lifting) atLeastAtMost_iff image_eqI zle_diff1_eq)
  then show ?thesis
    by (auto simp: grid_coords_def is_valid_coordinate_def)
qed



lemma valid_index_in_range:
  assumes "volume_ok v" "is_valid_coordinate v x y z"
  shows "0 \<le> get_index v x y z \<and> get_index v x y z < int (length (voxels v))"
  using assms index_bounds[of x "width v" y "height v" z "depth v"]
  by (simp add: volume_ok_def is_valid_coordinate_def get_index_def)

subsection \<open>Loops over the grid\<close>

text \<open>A loop whose iterations keep the shape of the grid and may activate one voxel each.\<close>

lemma for_each_active:
  fixes vol :: "'s \<Rightarrow> volume"
  assumes step: "\<And>c u. c \<in> set cs \<Longrightarrow> grid_shape (vol u) = sh \<Longrightarrow>
        \<exists>u'. body c u = Inr u' \<and> grid_shape (vol u') = sh
           \<and> (\<forall>j < length (voxels (vol u)).
                 active (voxels (vol u') ! j) = (active (voxels (vol u) ! j) \<or> (g c = j \<and> t c)))"
    and init: "grid_shape (vol u0) = sh"
  shows "\<exists>u'. for_each cs body u0 = Inr u' \<and> grid_shape (vol u') = sh
           \<and> (\<forall>j < length (voxels (vol u0)).
                 active (voxels (vol u') ! j)
                 = (active (voxels (vol u0) ! j) \<or> (\<exists>c \<in> set cs. g c = j \<and> t c)))"
  using step init
proof (induction cs arbitrary: u0)
  case Nil
  then show ?case by simp
next
  case (Cons c cs)
  obtain u1 where u1: "body c u0 = Inr u1" "grid_shape (vol u1) = sh"
    "\<forall>j < length (voxels (vol u0)).
        active (voxels (vol u1) ! j) = (active (voxels (vol u0) ! j) \<or> (g c = j \<and> t c))"
    using Cons.prems(1)[of c u0] Cons.prems(2) by auto
  have len: "length (voxels (vol u1)) = length (voxels (vol u0))"
    using u1(2) Cons.prems(2) by (auto simp: grid_shape_def)
  have "\<exists>u'. for_each cs body u1 = Inr u' \<and> grid_shape (vol u') = sh
           \<and> (\<forall>j < length (voxels (vol u1)).
                 active (voxels (vol u') ! j)
                 = (active (voxels (vol u1) ! j) \<or> (\<exists>c \<in> set cs. g c = j \<and> t c)))"
    using Cons.prems(1) u1(2) by (intro Cons.IH) auto
  then obtain u' where u': "for_each cs body u1 = Inr u'" "grid_shape (vol u') = sh"
    "\<forall>j < length (voxels (vol u1)).
        active (voxels (vol u') ! j)
        = (active (voxels (vol u1) ! j) \<or> (\<exists>c \<in> set cs. g c = j \<and> t c))"
    by blast
  have "\<forall>j < length (voxels (vol u0)).
        active (voxels (vol u') ! j)
        = (active (voxels (vol u0) ! j) \<or> (\<exists>c' \<in> set (c # cs). g c' = j \<and> t c'))"
    using u1(3) u'(3) len by auto
  then show ?case using u1(1) u'(1,2) by simp
qed

text \<open>Rewriting one voxel in range.\<close>

lemma voxel_modify_active:
  assumes "0 \<le> i" "i < int (length (voxels v))"
  shows "\<exists>v'. voxel_modify v i f = Inr v' \<and> grid_shape v' = grid_shape v
           \<and> gpu_data_dirty v' = gpu_data_dirty v
           \<and> (\<forall>j < length (voxels v).
                 voxels v' ! j = (if j = nat i then f (voxels v ! j) else voxels v ! j))"
  using assms by (auto simp: voxel_modify_def grid_shape_def)

lemma Volume_constructed:
  assumes "0 \<le> w" "0 \<le> h" "0 \<le> d"
  shows "\<exists>v. Volume w h d vs = Inr v \<and> grid_shape v = (w, h, d, vs, nat (w * h * d))
           \<and> (\<forall>j < nat (w * h * d). \<not> active (voxels v ! j))"
proof -
  define v0 where "v0 = \<lparr>gpu_data_dirty = True, volume_texture_dirty = True,
                  width = w, height = h, depth = d, voxel_size = vs,
                  rendered_voxel_count = 0,
                  voxels = replicate (nat (w * h * d)) Voxel,
                  render_mode = VOXEL_CUBES\<rparr>"
  define body where "body = (\<lambda>(x, y, z) v.
                voxel_modify v (z * width v * height v + y * width v + x)
                  (\<lambda>q. q\<lparr>position := voxel_to_world v x y z\<rparr>))"
  have sh0: "grid_shape v0 = (w, h, d, vs, nat (w * h * d))"
    by (simp add: v0_def grid_shape_def)
  have ok0: "volume_ok v0" using assms by (simp add: v0_def volume_ok_def)
  have step: "\<exists>u'. body c u = Inr u' \<and> grid_shape u' = (w, h, d, vs, nat (w * h * d))
           \<and> (\<forall>j < length (voxels u).
                 active (voxels u' ! j) = (active (voxels u ! j) \<or> (0 = j \<and> False)))"
    if c: "c \<in> set (grid_coords v0)" and u: "grid_shape u = (w, h, d, vs, nat (w * h * d))" for c u
  proof -
    obtain x y z where xyz: "c = (x, y, z)" by (cases c) auto
    have valid: "is_valid_coordinate v0 x y z" using c xyz by (simp add: set_grid_coords)
    have rng: "0 \<le> z * w * h + y * w + x \<and> z * w * h + y * w + x < int (nat (w * h * d))"
      using valid_index_in_range[OF ok0 valid] by (simp add: get_index_def v0_def)
    have wu: "width u = w" "height u = h" "length (voxels u) = nat (w * h * d)"
      using u by (simp_all add: grid_shape_def)
    from voxel_modify_active[of "z * w * h + y * w + x" u "\<lambda>q. q\<lparr>position := voxel_to_world u x y z\<rparr>"]
    show ?thesis using rng wu u by (auto simp: body_def xyz)
  qed
  from for_each_active[where vol = "\<lambda>u. u" and body = body and cs = "grid_coords v0"
        and sh = "(w, h, d, vs, nat (w * h * d))" and g = "\<lambda>_. 0" and t = "\<lambda>_. False" and ?u0.0 = v0,
        OF step sh0]
  obtain v where v: "for_each (grid_coords v0) body v0 = Inr v"
      "grid_shape v = (w, h, d, vs, nat (w * h * d))"
      "\<forall>j < length (voxels v0). active (voxels v ! j) = (active (voxels v0 ! j) \<or> (\<exists>c\<in>set (grid_coords v0). 0 = j \<and> False))"
    by blast
  have nonneg: "\<not> w * h * d < 0" using assms by (simp add: not_less)
  have "Volume w h d vs = Inr v"
    using v(1) nonneg unfolding Volume_def v0_def[symmetric] body_def[symmetric] Let_def by simp
  moreover have "\<forall>j < nat (w * h * d). \<not> active (voxels v ! j)"
    using v(3) by (simp add: v0_def Voxel_def)
  ultimately show ?thesis using v(2) by blast
qed





subsection \<open>Visibility of a voxel in a view\<close>

lemma all_of_Inr:
  assumes "\<And>a. a \<in> set as \<Longrightarrow> pred a = Inr (P a)"
  shows "all_of as pred = Inr (\<forall>a \<in> set as. P a)"
  using assms by (induction as) auto

lemma mat_at_single_channel:
  assumes "mat_ok m" "channels m = 1" "0 \<le> y" "y < rows m" "0 \<le> x" "x < cols m"
  shows "mat_at m y x = Inr (elem m y x 0)"
proof -
  have b: "0 \<le> y * cols m + x" "y * cols m + x < rows m * cols m"
    using index_bounds[of x "cols m" 0 1 y "rows m"] assms by (simp_all add: algebra_simps)
  have len: "int (length (elems m)) = rows m * cols m"
    using assms by (simp add: mat_ok_def)
  have n: "nat (y * cols m + x) = nat y * nat (cols m) + nat x"
    using assms by (simp add: nat_add_distrib nat_mult_distrib)
  show ?thesis
    using b len n assms(2) by (simp add: mat_at_def elem_def)
qed

lemma voxel_visible_silhouette:
  assumes "mask_ok (mask vw)"
  shows "voxel_visible en vw pos = Inr (silhouette_visible en vw pos)"
proof (cases "mat_empty (mask vw)")
  case True
  then show ?thesis by (simp add: voxel_visible_def silhouette_visible_def)
next
  case False
  show ?thesis
  proof (cases "projectPoints en [pos] (rvec vw) (tvec_proj vw) (intrinsic vw) (distortion vw)")
    case Nil
    then show ?thesis using False
      by (simp add: voxel_visible_def silhouette_visible_def projected_pixel_def)
  next
    case (Cons pt pts)
    show ?thesis
    proof (cases "cvRound (fst pt) < 0 \<or> cvRound (fst pt) \<ge> cols (mask vw)
                 \<or> cvRound (snd pt) < 0 \<or> cvRound (snd pt) \<ge> rows (mask vw)")
      case True
      then show ?thesis using False Cons
        by (auto simp: voxel_visible_def silhouette_visible_def projected_pixel_def Let_def)
    next
      case inside: False
      then have "mat_at (mask vw) (cvRound (snd pt)) (cvRound (fst pt))
                   = Inr (elem (mask vw) (cvRound (snd pt)) (cvRound (fst pt)) 0)"
        using assms by (intro mat_at_single_channel) (auto simp: mask_ok_def)
      then show ?thesis using False Cons inside
        by (auto simp: voxel_visible_def silhouette_visible_def projected_pixel_def Let_def)
    qed
  qed
qed


subsection \<open>The carving loop\<close>

lemma grid_dims: "num_x = 40" "num_y = 40" "num_z = 20"
  by (simp_all add: num_x_def num_y_def num_z_def VOLUME_BOX_LENGTH_def VOLUME_VOXEL_SIZE_def)

text \<open>The grid indices that the carving loop derives from the flattened index.\<close>

lemma carve_indices_valid:
  fixes idx :: int
  assumes "0 \<le> idx" "idx < 32000"
  shows "0 \<le> idx div 800 \<and> idx div 800 < 40
       \<and> 0 \<le> (idx div 20) mod 40 \<and> (idx div 20) mod 40 < 40
       \<and> 0 \<le> idx mod 20 \<and> idx mod 20 < 20"
  using assms by auto

lemma carve_indices_inverse:
  fixes xi yi zi :: int
  assumes "0 \<le> xi" "xi < 40" "0 \<le> yi" "yi < 40" "0 \<le> zi" "zi < 20"
  shows "0 \<le> xi * 800 + yi * 20 + zi \<and> xi * 800 + yi * 20 + zi < 32000
       \<and> (xi * 800 + yi * 20 + zi) div 800 = xi
       \<and> ((xi * 800 + yi * 20 + zi) div 20) mod 40 = yi
       \<and> (xi * 800 + yi * 20 + zi) mod 20 = zi"
proof -
  define k where "k = xi * 800 + yi * 20 + zi"
  have e: "k = xi * 20 * 40 + yi * 20 + zi" by (simp add: k_def)
  have m: "k mod 20 = zi" unfolding e using index_decompose(1)[of zi 20 yi 40 xi] assms by blast
  have q: "(k div 20) mod 40 = yi" unfolding e using index_decompose(2)[of zi 20 yi 40 xi] assms by blast
  have r: "(k div 20) div 40 = xi" unfolding e using index_decompose(3)[of zi 20 yi 40 xi] assms by blast
  have d: "k div 800 = (k div 20) div 40"
    using zdiv_zmult2_eq[of 20 k 40] by simp
  have b: "0 \<le> k \<and> k < 32000" using assms unfolding k_def by linarith
  show ?thesis using m q r d b unfolding k_def by simp
qed

lemma carve_voxel_unfold:
  "carve_voxel en vws idx u =
     (case all_of vws (\<lambda>vw. voxel_visible en vw
               (carve_position (idx div (num_y * num_z)) ((idx div num_z) mod num_y) (idx mod num_z))) of
        Inl e \<Rightarrow> Inl e
      | Inr all_visible \<Rightarrow>
          if all_visible then
            (case set_voxel_active (snd u) (idx div (num_y * num_z)) ((idx div num_z) mod num_y) (idx mod num_z) True of
               Inl e \<Rightarrow> Inl e
             | Inr v1 \<Rightarrow>
                 (case set_voxel_color v1 (idx div (num_y * num_z)) ((idx div num_z) mod num_y) (idx mod num_z)
                         (0.8, 0.3, 0.2, 0.9) of
                    Inl e \<Rightarrow> Inl e
                  | Inr v2 \<Rightarrow>
                      Inr (fst u @ [(- VOLUME_BOX_LENGTH + (idx div (num_y * num_z)) * VOLUME_VOXEL_SIZE,
                                     (idx mod num_z) * VOLUME_VOXEL_SIZE,
                                     - (- VOLUME_BOX_LENGTH + ((idx div num_z) mod num_y) * VOLUME_VOXEL_SIZE))], v2)))
          else Inr u)"
  unfolding carve_voxel_def carve_position_def Let_def by (rule refl)

lemma carve_voxel_step:
  assumes masks: "\<And>vw. vw \<in> set vws \<Longrightarrow> mask_ok (mask vw)"
    and idx: "0 \<le> idx" "idx < 32000"
    and sh: "grid_shape (snd u) = (40, 40, 20, 40, 32000)"
    and xi: "xi = idx div (num_y * num_z)"
    and yi: "yi = (idx div num_z) mod num_y"
    and zi: "zi = idx mod num_z"
  shows "\<exists>u'. carve_voxel en vws idx u = Inr u' \<and> grid_shape (snd u') = (40, 40, 20, 40, 32000)
           \<and> (\<forall>j < length (voxels (snd u)).
                 active (voxels (snd u') ! j)
                 = (active (voxels (snd u) ! j)
                    \<or> (nat (zi * 40 * 40 + yi * 40 + xi) = j
                       \<and> (\<forall>vw \<in> set vws. silhouette_visible en vw (carve_position xi yi zi)))))"
proof -
  define v where "v = snd u"
  define vis where "vis = (\<forall>vw \<in> set vws. silhouette_visible en vw (carve_position xi yi zi))"
  have dims: "width v = 40" "height v = 40" "depth v = 20" "length (voxels v) = 32000"
    using sh by (simp_all add: grid_shape_def v_def)
  have v4: "voxel_size v = 40" using sh by (simp add: grid_shape_def v_def)
  have "0 \<le> xi \<and> xi < 40 \<and> 0 \<le> yi \<and> yi < 40 \<and> 0 \<le> zi \<and> zi < 20"
    using carve_indices_valid[OF idx] unfolding xi yi zi grid_dims by simp
  then have valid: "is_valid_coordinate v xi yi zi"
    by (simp add: is_valid_coordinate_def dims)
  have ok: "volume_ok v" by (simp add: volume_ok_def dims)
  have rng: "0 \<le> get_index v xi yi zi \<and> get_index v xi yi zi < int (length (voxels v))"
    by (rule valid_index_in_range[OF ok valid])
  have gi: "get_index v xi yi zi = zi * 40 * 40 + yi * 40 + xi"
    by (simp add: get_index_def dims)
  define i where "i = nat (zi * 40 * 40 + yi * 40 + xi)"
  have ilt: "i < length (voxels v)" using rng unfolding i_def gi by linarith
  have all: "all_of vws (\<lambda>vw. voxel_visible en vw (carve_position xi yi zi)) = Inr vis"
    unfolding vis_def by (rule all_of_Inr) (simp add: voxel_visible_silhouette masks)
  show ?thesis
  proof (cases vis)
    case False
    have "carve_voxel en vws idx u = Inr u"
      unfolding carve_voxel_unfold xi[symmetric] yi[symmetric] zi[symmetric] all
      using False by simp
    then show ?thesis using False sh unfolding vis_def by auto
  next
    case True
    define v1 where "v1 = v\<lparr>voxels := (voxels v)[i := (voxels v ! i)\<lparr>active := True\<rparr>],
                             gpu_data_dirty := True, volume_texture_dirty := True\<rparr>"
    have s1: "set_voxel_active v xi yi zi True = Inr v1"
      using valid rng unfolding gi by (simp add: set_voxel_active_def voxel_modify_def v1_def i_def gi)
    have valid1: "is_valid_coordinate v1 xi yi zi"
      using valid by (simp add: is_valid_coordinate_def v1_def)
    have gi1: "get_index v1 xi yi zi = zi * 40 * 40 + yi * 40 + xi"
      using gi by (simp add: get_index_def v1_def)
    have len1: "length (voxels v1) = length (voxels v)" by (simp add: v1_def)
    define v2 where "v2 = (\<lambda>c. v1\<lparr>voxels := (voxels v1)[i := (voxels v1 ! i)\<lparr>color := c\<rparr>],
                             gpu_data_dirty := True, volume_texture_dirty := True\<rparr>)"
    have s2: "set_voxel_color v1 xi yi zi c = Inr (v2 c)" for c
      using valid1 rng unfolding gi by (simp add: set_voxel_color_def voxel_modify_def v2_def i_def gi1 len1)
    have res: "\<exists>l c. carve_voxel en vws idx u = Inr (l, v2 c)"
      unfolding carve_voxel_unfold xi[symmetric] yi[symmetric] zi[symmetric] all v_def[symmetric]
      using True by (simp add: s1 s2) blast
    have sh2: "grid_shape (v2 c) = (40, 40, 20, 40, 32000)" for c
      by (simp add: v2_def v1_def grid_shape_def dims v4)
    have act: "active (voxels (v2 c) ! j) = (active (voxels v ! j) \<or> i = j)" if "j < length (voxels v)" for j c
      using that ilt by (cases "i = j") (simp_all add: v2_def v1_def)
    have "\<forall>j < length (voxels v). active (voxels (v2 c) ! j) = (active (voxels v ! j) \<or> (i = j \<and> vis))" for c
      using act True by simp
    then show ?thesis
      unfolding v_def[symmetric] vis_def[symmetric] i_def[symmetric]
      using sh2 res by auto
  qed
qed


lemma create_volume_active:
  assumes masks: "\<And>vw. vw \<in> set vws \<Longrightarrow> mask_ok (mask vw)"
  shows "\<exists>vol. create_volume en vws = Inr vol \<and> grid_shape vol = (40, 40, 20, 40, 32000)
           \<and> (\<forall>xi yi zi. 0 \<le> xi \<and> xi < 40 \<and> 0 \<le> yi \<and> yi < 40 \<and> 0 \<le> zi \<and> zi < 20 \<longrightarrow>
                 active (voxels vol ! nat (zi * 40 * 40 + yi * 40 + xi))
                 = (\<forall>vw \<in> set vws. silhouette_visible en vw (carve_position xi yi zi)))"
proof -
  define g where "g = (\<lambda>idx :: int. nat ((idx mod 20) * 40 * 40 + ((idx div 20) mod 40) * 40 + idx div 800))"
  define t where "t = (\<lambda>idx :: int. \<forall>vw \<in> set vws. silhouette_visible en vw
                          (carve_position (idx div 800) ((idx div 20) mod 40) (idx mod 20)))"
  obtain v0 where v0: "Volume 40 40 20 40 = Inr v0" "grid_shape v0 = (40, 40, 20, 40, 32000)"
      "\<forall>j < 32000. \<not> active (voxels v0 ! j)"
    using Volume_constructed[of 40 40 20 40] by auto
  have len0: "length (voxels v0) = 32000" using v0(2) by (simp add: grid_shape_def)
  have step: "\<exists>u'. carve_voxel en vws idx u = Inr u' \<and> grid_shape (snd u') = (40, 40, 20, 40, 32000)
           \<and> (\<forall>j < length (voxels (snd u)).
                 active (voxels (snd u') ! j) = (active (voxels (snd u) ! j) \<or> (g idx = j \<and> t idx)))"
    if "idx \<in> set [0 .. 31999]" and "grid_shape (snd u) = (40, 40, 20, 40, 32000)" for idx u
  proof -
    have b: "0 \<le> idx" "idx < 32000" using that(1) by auto
    show ?thesis
      unfolding g_def t_def
      by (rule carve_voxel_step[OF masks b that(2)]) (simp_all add: grid_dims)
  qed
  have init: "grid_shape (snd ([] :: (int \<times> int \<times> int) list, v0)) = (40, 40, 20, 40, 32000)"
    using v0(2) by simp
  obtain u' where u': "for_each [0 .. 31999] (carve_voxel en vws) ([], v0) = Inr u'"
      "grid_shape (snd u') = (40, 40, 20, 40, 32000)"
      "\<forall>j < length (voxels (snd ([] :: (int \<times> int \<times> int) list, v0))).
          active (voxels (snd u') ! j)
          = (active (voxels (snd ([] :: (int \<times> int \<times> int) list, v0)) ! j) \<or> (\<exists>idx \<in> set [0 .. 31999]. g idx = j \<and> t idx))"
    using for_each_active[where vol = snd and body = "carve_voxel en vws" and cs = "[0 .. 31999]"
        and sh = "(40, 40, 20, 40, 32000)" and g = g and t = t and ?u0.0 = "([], v0)", OF step init]
    by blast
  have act: "active (voxels (snd u') ! j) = (\<exists>idx \<in> set [0 .. 31999]. g idx = j \<and> t idx)"
    if "j < 32000" for j
    using u'(3) v0(3) len0 that by simp
  have n: "num_x * num_y * num_z - 1 = 31999" "of_int VOLUME_VOXEL_SIZE = (40::real)"
    by (simp_all add: grid_dims VOLUME_VOXEL_SIZE_def)
  have cv: "create_volume en vws = Inr (initialize (snd u'))"
    unfolding create_volume_def n grid_dims by (simp add: v0(1) u'(1))
  have shape: "grid_shape (initialize (snd u')) = (40, 40, 20, 40, 32000)"
    using u'(2) by (simp add: grid_shape_def initialize_def)
  have main: "active (voxels (initialize (snd u')) ! nat (zi * 40 * 40 + yi * 40 + xi))
                 = (\<forall>vw \<in> set vws. silhouette_visible en vw (carve_position xi yi zi))"
    if c: "0 \<le> xi" "xi < 40" "0 \<le> yi" "yi < 40" "0 \<le> zi" "zi < 20" for xi yi zi :: int
  proof -
    define j where "j = nat (zi * 40 * 40 + yi * 40 + xi)"
    have jb: "0 \<le> zi * 40 * 40 + yi * 40 + xi" "zi * 40 * 40 + yi * 40 + xi < 32000"
      using index_bounds[of xi 40 yi 40 zi 20] c by simp_all
    then have jlt: "j < 32000" by (simp add: j_def nat_less_iff)
    have "(\<exists>idx \<in> set [0 .. 31999]. g idx = j \<and> t idx)
          = (\<forall>vw \<in> set vws. silhouette_visible en vw (carve_position xi yi zi))"
    proof
      assume "\<exists>idx \<in> set [0 .. 31999]. g idx = j \<and> t idx"
      then obtain idx where idx: "0 \<le> idx" "idx < 32000" "g idx = j" "t idx" by auto
      have vi: "0 \<le> idx div 800 \<and> idx div 800 < 40
       \<and> 0 \<le> (idx div 20) mod 40 \<and> (idx div 20) mod 40 < 40
       \<and> 0 \<le> idx mod 20 \<and> idx mod 20 < 20"
        by (rule carve_indices_valid[OF idx(1,2)])
      have ib: "0 \<le> (idx mod 20) * 40 * 40 + ((idx div 20) mod 40) * 40 + idx div 800"
        using index_bounds(1)[of "idx div 800" 40 "(idx div 20) mod 40" 40 "idx mod 20" 20] vi by simp
      have "(idx mod 20) * 40 * 40 + ((idx div 20) mod 40) * 40 + idx div 800
            = zi * 40 * 40 + yi * 40 + xi"
        using idx(3) ib jb(1) unfolding g_def j_def by linarith
      then have "idx div 800 = xi \<and> (idx div 20) mod 40 = yi \<and> idx mod 20 = zi"
        using index_inj[of "idx div 800" 40 "(idx div 20) mod 40" 40 xi yi "idx mod 20" zi] vi c
        by blast
      then show "\<forall>vw \<in> set vws. silhouette_visible en vw (carve_position xi yi zi)"
        using idx(4) unfolding t_def by simp
    next
      assume a: "\<forall>vw \<in> set vws. silhouette_visible en vw (carve_position xi yi zi)"
      define idx where "idx = xi * 800 + yi * 20 + zi"
      have inv: "0 \<le> idx \<and> idx < 32000 \<and> idx div 800 = xi \<and> (idx div 20) mod 40 = yi \<and> idx mod 20 = zi"
        unfolding idx_def by (rule carve_indices_inverse[OF c])
      then have "idx \<in> set [0 .. 31999]" "g idx = j" "t idx"
        using a by (simp_all add: g_def t_def j_def)
      then show "\<exists>idx \<in> set [0 .. 31999]. g idx = j \<and> t idx" by blast
    qed
    then show ?thesis
      using act[OF jlt] by (simp add: initialize_def j_def)
  qed
  show ?thesis using cv shape main by blast
qed

lemma is_voxel_active_shape:
  assumes "grid_shape vol = (40, 40, 20, 40, 32000)"
    and "0 \<le> xi" "xi < 40" "0 \<le> yi" "yi < 40" "0 \<le> zi" "zi < 20"
  shows "is_voxel_active vol xi yi zi = Inr (active (voxels vol ! nat (zi * 40 * 40 + yi * 40 + xi)))"
proof -
  have dims: "width vol = 40" "height vol = 40" "depth vol = 20" "length (voxels vol) = 32000"
    using assms(1) by (simp_all add: grid_shape_def)
  have valid: "is_valid_coordinate vol xi yi zi"
    using assms by (simp add: is_valid_coordinate_def dims)
  have b: "0 \<le> zi * 40 * 40 + yi * 40 + xi" "zi * 40 * 40 + yi * 40 + xi < 32000"
    using index_bounds[of xi 40 yi 40 zi 20] assms by simp_all
  show ?thesis
    using valid b by (simp add: is_voxel_active_def voxel_at_def get_index_def dims)
qed

lemma no_views_all_active:
  "\<exists>vol. create_volume en [] = Inr vol \<and> length (voxels vol) = 32000
         \<and> active_voxel_count vol = 32000"
proof -
  obtain vol where vol: "create_volume en [] = Inr vol" "grid_shape vol = (40, 40, 20, 40, 32000)"
    "\<forall>xi yi zi. 0 \<le> xi \<and> xi < 40 \<and> 0 \<le> yi \<and> yi < 40 \<and> 0 \<le> zi \<and> zi < 20 \<longrightarrow>
                 active (voxels vol ! nat (zi * 40 * 40 + yi * 40 + xi))
                 = (\<forall>vw \<in> set ([] :: view list). silhouette_visible en vw (carve_position xi yi zi))"
    using create_volume_active[of "[]" en] by auto
  have len: "length (voxels vol) = 32000" using vol(2) by (simp add: grid_shape_def)
  have "active (voxels vol ! j)" if "j < 32000" for j
  proof -
    define k where "k = int j"
    define xi yi zi where "xi = k mod 40" and "yi = (k div 40) mod 40" and "zi = (k div 40) div 40"
    have kb: "0 \<le> k" "k < 32000" using that by (simp_all add: k_def)
    have c: "0 \<le> xi \<and> xi < 40 \<and> 0 \<le> yi \<and> yi < 40 \<and> 0 \<le> zi \<and> zi < 20"
      using kb unfolding xi_def yi_def zi_def by auto
    have "(k div 40) div 40 * 40 + (k div 40) mod 40 = k div 40" by simp
    then have "zi * 40 * 40 + yi * 40 + xi = k"
      unfolding xi_def yi_def zi_def by (metis add.commute distrib_right mod_mult_div_eq mult.commute)
    then have "nat (zi * 40 * 40 + yi * 40 + xi) = j" by (simp add: k_def)
    then show ?thesis using vol(3) c by fastforce
  qed
  then have "filter active (voxels vol) = voxels vol"
    using len by (simp add: filter_id_conv all_set_conv_all_nth)
  then show ?thesis using vol(1) len by (simp add: active_voxel_count_def)
qed

subsection \<open>Filling a box\<close>

lemma is_voxel_active_valid:
  assumes "volume_ok v" "is_valid_coordinate v x y z"
  shows "is_voxel_active v x y z = Inr (active (voxels v ! nat (get_index v x y z)))"
  using assms valid_index_in_range[OF assms]
  by (simp add: is_voxel_active_def voxel_at_def)

lemma fill_box_active:
  assumes ok: "volume_ok v"
  shows "\<exists>v'. fill_box v min_pos max_pos col = Inr v' \<and> grid_shape v' = grid_shape v
           \<and> (\<forall>x y z. is_valid_coordinate v x y z \<longrightarrow>
                 active (voxels v' ! nat (get_index v x y z))
                 = (active (voxels v ! nat (get_index v x y z))
                    \<or> fill_box_test (voxel_to_world v x y z) min_pos max_pos))"
proof -
  define body where "body = (\<lambda>(x, y, z) v.
                let voxel_pos = voxel_to_world v x y z in
                if fill_box_test voxel_pos min_pos max_pos
                then voxel_modify v (get_index v x y z)
                       (\<lambda>q. q\<lparr>active := True, color := col, density := 1\<rparr>)
                else Inr v)"
  define g where "g = (\<lambda>(x, y, z). nat (get_index v x y z))"
  define t where "t = (\<lambda>(x, y, z). fill_box_test (voxel_to_world v x y z) min_pos max_pos)"
  have step: "\<exists>u'. body c u = Inr u' \<and> grid_shape u' = grid_shape v
           \<and> (\<forall>j < length (voxels u).
                 active (voxels u' ! j) = (active (voxels u ! j) \<or> (g c = j \<and> t c)))"
    if c: "c \<in> set (grid_coords v)" and u: "grid_shape u = grid_shape v" for c u
  proof -
    obtain x y z where xyz: "c = (x, y, z)" by (cases c) auto
    have valid: "is_valid_coordinate v x y z" using c xyz by (simp add: set_grid_coords)
    have same: "width u = width v" "height u = height v" "voxel_size u = voxel_size v"
      "length (voxels u) = length (voxels v)"
      using u by (simp_all add: grid_shape_def)
    have gi: "get_index u x y z = get_index v x y z" by (simp add: get_index_def same)
    have w: "voxel_to_world u x y z = voxel_to_world v x y z" by (simp add: voxel_to_world_def same)
    have rng: "0 \<le> get_index v x y z \<and> get_index v x y z < int (length (voxels u))"
      using valid_index_in_range[OF ok valid] same by simp
    show ?thesis
    proof (cases "fill_box_test (voxel_to_world v x y z) min_pos max_pos")
      case False
      then show ?thesis using u by (simp add: body_def xyz t_def w)
    next
      case True
      obtain u' where u': "voxel_modify u (get_index v x y z)
             (\<lambda>q. q\<lparr>active := True, color := col, density := 1\<rparr>) = Inr u'"
          "grid_shape u' = grid_shape u"
          "\<forall>j < length (voxels u). voxels u' ! j
              = (if j = nat (get_index v x y z)
                 then (voxels u ! j)\<lparr>active := True, color := col, density := 1\<rparr> else voxels u ! j)"
        using voxel_modify_active[of "get_index v x y z" u] rng by blast
      have "body c u = Inr u'"
        using True u'(1) by (simp add: body_def xyz w gi)
      moreover have "\<forall>j < length (voxels u).
                 active (voxels u' ! j) = (active (voxels u ! j) \<or> (g c = j \<and> t c))"
        using u'(3) True by (auto simp: g_def t_def xyz)
      ultimately show ?thesis using u'(2) u by simp
    qed
  qed
  obtain w where w: "for_each (grid_coords v) body v = Inr w" "grid_shape w = grid_shape v"
      "\<forall>j < length (voxels v). active (voxels w ! j)
          = (active (voxels v ! j) \<or> (\<exists>c \<in> set (grid_coords v). g c = j \<and> t c))"
    using for_each_active[where vol = "\<lambda>u. u" and body = body and cs = "grid_coords v"
        and sh = "grid_shape v" and g = g and t = t and ?u0.0 = v, OF step refl]
    by blast
  define v' where "v' = w\<lparr>gpu_data_dirty := True, volume_texture_dirty := True\<rparr>"
  have res: "fill_box v min_pos max_pos col = Inr v'"
    unfolding fill_box_def body_def[symmetric] by (simp add: w(1) v'_def)
  have sh: "grid_shape v' = grid_shape v" using w(2) by (simp add: v'_def grid_shape_def)
  have main: "active (voxels v' ! nat (get_index v x y z))
                 = (active (voxels v ! nat (get_index v x y z))
                    \<or> fill_box_test (voxel_to_world v x y z) min_pos max_pos)"
    if valid: "is_valid_coordinate v x y z" for x y z
  proof -
    have rng: "0 \<le> get_index v x y z \<and> get_index v x y z < int (length (voxels v))"
      by (rule valid_index_in_range[OF ok valid])
    then have lt: "nat (get_index v x y z) < length (voxels v)" by (simp add: nat_less_iff)
    have "(\<exists>c \<in> set (grid_coords v). g c = nat (get_index v x y z) \<and> t c)
          = fill_box_test (voxel_to_world v x y z) min_pos max_pos"
    proof
      assume "\<exists>c \<in> set (grid_coords v). g c = nat (get_index v x y z) \<and> t c"
      then obtain x' y' z' where c: "is_valid_coordinate v x' y' z'"
          "nat (get_index v x' y' z') = nat (get_index v x y z)"
          "fill_box_test (voxel_to_world v x' y' z') min_pos max_pos"
        by (auto simp: set_grid_coords g_def t_def)
      have "0 \<le> get_index v x' y' z'" using valid_index_in_range[OF ok c(1)] by simp
      then have "get_index v x' y' z' = get_index v x y z" using c(2) rng by linarith
      then have "x' = x \<and> y' = y \<and> z' = z"
        using index_inj[of x' "width v" y' "height v" x y z' z] c(1) valid
        by (simp add: get_index_def is_valid_coordinate_def)
      then show "fill_box_test (voxel_to_world v x y z) min_pos max_pos" using c(3) by simp
    next
      assume "fill_box_test (voxel_to_world v x y z) min_pos max_pos"
      then have "(x, y, z) \<in> set (grid_coords v) \<and> g (x, y, z) = nat (get_index v x y z) \<and> t (x, y, z)"
        using valid by (simp add: set_grid_coords g_def t_def)
      then show "\<exists>c \<in> set (grid_coords v). g c = nat (get_index v x y z) \<and> t c" by blast
    qed
    then show ?thesis using w(3) lt by (simp add: v'_def)
  qed
  show ?thesis using res sh main by blast
qed

text \<open>
  C8. \<^verbatim>\<open>fill_box\<close> leaves a voxel of the grid active iff its world position passes the
  bound check on at least one of the three axes, or it was active before: the test is
  an OR across the axes, not the containment in the box on all three. Consequently a
  voxel outside the box can be activated: in the grid \<open>box_volume\<close> the voxel (0, 0, 0)
  lies at (-1, 1/2, 1/2), outside the box from (5, 5, 0) to (6, 6, 1), and \<^verbatim>\<open>fill_box\<close>
  marks it active because its third coordinate is within [0, 1].
\<close>

theorem fill_box_activates_on_any_axis:
  "(volume_ok v \<and> is_valid_coordinate v x y z
      \<and> voxel_to_world v x y z = (px, py, pz)
      \<longrightarrow> (\<exists>v'. fill_box v (minx, miny, minz) (maxx, maxy, maxz) col = Inr v'
             \<and> is_voxel_active v' x y z
               = Inr ((px \<ge> minx \<and> px \<le> maxx) \<or> (py \<ge> miny \<and> py \<le> maxy) \<or> (pz \<ge> minz \<and> pz \<le> maxz)
                      \<or> is_voxel_active v x y z = Inr True)))
   \<and> (\<not> inside_box (voxel_to_world box_volume 0 0 0) (5, 5, 0) (6, 6, 1)
      \<and> is_voxel_active box_volume 0 0 0 = Inr False
      \<and> (\<exists>v'. fill_box box_volume (5, 5, 0) (6, 6, 1) (1, 1, 1, 1) = Inr v'
             \<and> is_voxel_active v' 0 0 0 = Inr True))"
proof -
  have general: "\<exists>v'. fill_box v (minx, miny, minz) (maxx, maxy, maxz) col = Inr v'
             \<and> is_voxel_active v' x y z
               = Inr ((px \<ge> minx \<and> px \<le> maxx) \<or> (py \<ge> miny \<and> py \<le> maxy) \<or> (pz \<ge> minz \<and> pz \<le> maxz)
                      \<or> is_voxel_active v x y z = Inr True)"
    if ok: "volume_ok v" and valid: "is_valid_coordinate v x y z"
      and pos: "voxel_to_world v x y z = (px, py, pz)"
    for v x y z px py pz minx miny minz maxx maxy maxz col
  proof -
    obtain v' where v': "fill_box v (minx, miny, minz) (maxx, maxy, maxz) col = Inr v'"
        "grid_shape v' = grid_shape v"
        "\<forall>x y z. is_valid_coordinate v x y z \<longrightarrow>
                 active (voxels v' ! nat (get_index v x y z))
                 = (active (voxels v ! nat (get_index v x y z))
                    \<or> fill_box_test (voxel_to_world v x y z) (minx, miny, minz) (maxx, maxy, maxz))"
      using fill_box_active[OF ok] by blast
    have ok': "volume_ok v'" using ok v'(2) by (auto simp: volume_ok_def grid_shape_def)
    have valid': "is_valid_coordinate v' x y z"
      using valid v'(2) by (auto simp: is_valid_coordinate_def grid_shape_def)
    have gi: "get_index v' x y z = get_index v x y z"
      using v'(2) by (auto simp: get_index_def grid_shape_def)
    show ?thesis
      using v'(1,3) valid is_voxel_active_valid[OF ok valid] is_voxel_active_valid[OF ok' valid']
      by (auto simp: gi pos fill_box_test_def)
  qed
  have ok: "volume_ok box_volume" by (simp add: volume_ok_def box_volume_def)
  have valid: "is_valid_coordinate box_volume 0 0 0"
    by (simp add: is_valid_coordinate_def box_volume_def)
  have pos: "voxel_to_world box_volume 0 0 0 = (- 1, 1 / 2, 1 / 2)"
    by (simp add: voxel_to_world_def box_volume_def)
  have before: "is_voxel_active box_volume 0 0 0 = Inr False"
    by (simp add: is_voxel_active_valid[OF ok valid]) (simp add: box_volume_def get_index_def Voxel_def)
  have outside: "\<not> inside_box (voxel_to_world box_volume 0 0 0) (5, 5, 0) (6, 6, 1)"
    by (simp add: pos inside_box_def)
  have "\<exists>v'. fill_box box_volume (5, 5, 0) (6, 6, 1) (1, 1, 1, 1) = Inr v'
             \<and> is_voxel_active v' 0 0 0 = Inr True"
    using general[OF ok valid pos, of 5 5 0 6 6 1 "(1, 1, 1, 1)"] by simp
  then show ?thesis using general before outside by blast
qed

theorem fill_box_activates_on_any_axis_witness:
  "volume_ok box_volume \<and> is_valid_coordinate box_volume 1 0 0
     \<and> voxel_to_world box_volume 1 0 0 = (0, 1 / 2, 1 / 2)
     \<and> (\<exists>v'. fill_box box_volume (5, 5, 0) (6, 6, 1) (1, 1, 1, 1) = Inr v'
             \<and> is_voxel_active v' 1 0 0 = Inr True)"
proof -
  have ok: "volume_ok box_volume" by (simp add: volume_ok_def box_volume_def)
  have valid: "is_valid_coordinate box_volume 1 0 0"
    by (simp add: is_valid_coordinate_def box_volume_def)
  have pos: "voxel_to_world box_volume 1 0 0 = (0, 1 / 2, 1 / 2)"
    by (simp add: voxel_to_world_def box_volume_def)
  have "\<exists>v'. fill_box box_volume (5, 5, 0) (6, 6, 1) (1, 1, 1, 1) = Inr v'
             \<and> is_voxel_active v' 1 0 0
               = Inr (((0::real) \<ge> 5 \<and> (0::real) \<le> 6) \<or> ((1 / 2 :: real) \<ge> 5 \<and> (1 / 2 :: real) \<le> 6)
                      \<or> ((1 / 2 :: real) \<ge> 0 \<and> (1 / 2 :: real) \<le> 1)
                      \<or> is_voxel_active box_volume 1 0 0 = Inr True)"
    using fill_box_activates_on_any_axis[of box_volume 1 0 0 0 "1 / 2" "1 / 2" 5 5 0 6 6 1 "(1, 1, 1, 1)"]
      ok valid pos by blast
  then show ?thesis using ok valid pos by simp
qed

subsection \<open>Accessors and carving\<close>

text \<open>
  C9. For every volume and every coordinate outside the grid, the four setters return
  the volume unchanged and the two getters return the default voxel and \<open>False\<close>; the
  voxel array is not addressed, so no access is out of range.
\<close>

theorem out_of_range_coordinate_is_ignored:
  assumes "x < 0 \<or> x \<ge> width v \<or> y < 0 \<or> y \<ge> height v \<or> z < 0 \<or> z \<ge> depth v"
  shows "set_voxel v x y z vox = Inr v
       \<and> set_voxel_active v x y z a = Inr v
       \<and> set_voxel_color v x y z c = Inr v
       \<and> set_voxel_density v x y z d = Inr v
       \<and> get_voxel v x y z = Inr Voxel
       \<and> is_voxel_active v x y z = Inr False"
proof -
  from assms have "\<not> is_valid_coordinate v x y z"
    by (auto simp: is_valid_coordinate_def)
  then show ?thesis
    by (simp add: set_voxel_def set_voxel_active_def set_voxel_color_def
        set_voxel_density_def get_voxel_def is_voxel_active_def)
qed

theorem out_of_range_coordinate_is_ignored_witness:
  "((2::int) < 0 \<or> 2 \<ge> width box_volume \<or> (0::int) < 0 \<or> 0 \<ge> height box_volume
      \<or> (0::int) < 0 \<or> 0 \<ge> depth box_volume)
   \<and> set_voxel box_volume 2 0 0 Voxel = Inr box_volume
   \<and> set_voxel_active box_volume 2 0 0 True = Inr box_volume
   \<and> set_voxel_color box_volume 2 0 0 (0, 0, 0, 1) = Inr box_volume
   \<and> set_voxel_density box_volume 2 0 0 0 = Inr box_volume
   \<and> get_voxel box_volume 2 0 0 = Inr Voxel
   \<and> is_voxel_active box_volume 2 0 0 = Inr False"
proof -
  have h: "(2::int) < 0 \<or> 2 \<ge> width box_volume \<or> (0::int) < 0 \<or> 0 \<ge> height box_volume
      \<or> (0::int) < 0 \<or> 0 \<ge> depth box_volume"
    by (simp add: box_volume_def)
  show ?thesis
    using h out_of_range_coordinate_is_ignored [OF h] by blast
qed

text \<open>
  C1, as the code has it. With an empty list of views \<^verbatim>\<open>all_of\<close> holds of every voxel,
  so carving activates all 40 * 40 * 20 = 32000 voxels of the grid.
\<close>

theorem carving_without_views_activates_every_voxel:
  "\<exists>vol. create_volume en [] = Inr vol
         \<and> length (voxels vol) = nat (num_x * num_y * num_z)
         \<and> active_voxel_count vol = nat (num_x * num_y * num_z)"
  using no_views_all_active[of en] by (simp add: grid_dims)

text \<open>C1, as stated, fails: the grid carved from no views has 32000 active voxels, not none.\<close>

theorem carving_without_views_counterexample:
  "map_sum id active_voxel_count (create_volume (studio []) []) = Inr 32000"
proof -
  obtain vol where "create_volume (studio []) [] = Inr vol" "active_voxel_count vol = 32000"
    using no_views_all_active[of "studio []"] by blast
  then show ?thesis by simp
qed

text \<open>
  C3. Carving marks the voxel with grid indices \<open>(xi, yi, zi)\<close> active iff the voxel
  is visible in every view: its projected pixel lies inside the bounds of the view's
  mask and the mask is 255 there. A view with an empty mask, and a projected pixel
  outside the bounds, make \<^verbatim>\<open>voxel_visible\<close> answer false whatever the mask holds. The
  equivalence holds for every list of views with well-formed masks, the non-empty lists
  among them.
\<close>

theorem carving_marks_voxels_visible_in_every_view:
  assumes "\<forall>vw \<in> set vws. mask_ok (mask vw)"
    and "0 \<le> xi" "xi < num_x" "0 \<le> yi" "yi < num_y" "0 \<le> zi" "zi < num_z"
  shows "(\<exists>vol. create_volume en vws = Inr vol
            \<and> is_voxel_active vol xi yi zi
              = Inr (\<forall>vw \<in> set vws. silhouette_visible en vw (carve_position xi yi zi)))
       \<and> (\<forall>vw pos. mat_empty (mask vw) \<longrightarrow> voxel_visible en vw pos = Inr False)
       \<and> (\<forall>vw pos px py. projected_pixel en vw pos = Some (px, py)
              \<and> (px < 0 \<or> px \<ge> cols (mask vw) \<or> py < 0 \<or> py \<ge> rows (mask vw))
              \<longrightarrow> voxel_visible en vw pos = Inr False)"
proof -
  have c: "0 \<le> xi" "xi < 40" "0 \<le> yi" "yi < 40" "0 \<le> zi" "zi < 20"
    using assms(2-7) by (simp_all add: grid_dims)
  obtain vol where vol: "create_volume en vws = Inr vol" "grid_shape vol = (40, 40, 20, 40, 32000)"
    "\<forall>xi yi zi. 0 \<le> xi \<and> xi < 40 \<and> 0 \<le> yi \<and> yi < 40 \<and> 0 \<le> zi \<and> zi < 20 \<longrightarrow>
                 active (voxels vol ! nat (zi * 40 * 40 + yi * 40 + xi))
                 = (\<forall>vw \<in> set vws. silhouette_visible en vw (carve_position xi yi zi))"
    using create_volume_active[of vws en] assms(1) by blast
  have "is_voxel_active vol xi yi zi
              = Inr (\<forall>vw \<in> set vws. silhouette_visible en vw (carve_position xi yi zi))"
    using is_voxel_active_shape[OF vol(2) c] vol(3) c by simp
  then have first: "\<exists>vol. create_volume en vws = Inr vol
            \<and> is_voxel_active vol xi yi zi
              = Inr (\<forall>vw \<in> set vws. silhouette_visible en vw (carve_position xi yi zi))"
    using vol(1) by blast
  have second: "\<forall>vw pos. mat_empty (mask vw) \<longrightarrow> voxel_visible en vw pos = Inr False"
    by (simp add: voxel_visible_def)
  have third: "\<forall>vw pos px py. projected_pixel en vw pos = Some (px, py)
              \<and> (px < 0 \<or> px \<ge> cols (mask vw) \<or> py < 0 \<or> py \<ge> rows (mask vw))
              \<longrightarrow> voxel_visible en vw pos = Inr False"
    by (auto simp: voxel_visible_def projected_pixel_def Let_def split: list.splits)
  show ?thesis using first second third by blast
qed

theorem carving_marks_voxels_visible_in_every_view_witness:
  "mask_ok (mask (view_at ''bg1.png'' ''cb1.yml'' white_pixel))
   \<and> (0::int) \<le> 0 \<and> 0 < num_x \<and> (0::int) \<le> 0 \<and> 0 < num_y \<and> (0::int) \<le> 0 \<and> 0 < num_z
   \<and> (\<exists>vol. create_volume (studio []) [view_at ''bg1.png'' ''cb1.yml'' white_pixel] = Inr vol
          \<and> is_voxel_active vol 0 0 0 = Inr True)"
proof -
  have m: "\<forall>vw \<in> set [view_at ''bg1.png'' ''cb1.yml'' white_pixel]. mask_ok (mask vw)"
    by (simp add: view_at_def white_pixel_def mask_ok_def mat_ok_def)
  have n: "(0::int) < num_x" "(0::int) < num_y" "(0::int) < num_z"
    by (simp_all add: grid_dims)
  have vis: "silhouette_visible (studio []) (view_at ''bg1.png'' ''cb1.yml'' white_pixel)
               (carve_position 0 0 0)"
    by (simp add: silhouette_visible_def projected_pixel_def studio_def view_at_def
        white_pixel_def mat_empty_def cvRound_def elem_def)
  have "\<exists>vol. create_volume (studio []) [view_at ''bg1.png'' ''cb1.yml'' white_pixel] = Inr vol
            \<and> is_voxel_active vol 0 0 0
              = Inr (\<forall>vw \<in> set [view_at ''bg1.png'' ''cb1.yml'' white_pixel].
                       silhouette_visible (studio []) vw (carve_position 0 0 0))"
    using carving_marks_voxels_visible_in_every_view
            [of "[view_at ''bg1.png'' ''cb1.yml'' white_pixel]" 0 0 0 "studio []", OF m _ n(1) _ n(2) _ n(3)]
    by blast
  then show ?thesis using m n vis by simp
qed

subsection \<open>Calibration and calibration records\<close>

lemma detections_first_view_fails:
  "detections first_view_fails four_views = [(Mat, [(2, 20)]), (Mat, [(3, 30)]), (Mat, [(4, 40)])]"
  by (simp add: detections_def first_view_fails_def four_views_def studio_def view_at_def
      List.map_filter_simps)

lemma run_calibration_first_view_fails:
  "run_calibration first_view_fails four_views = Inr shifted_views"
  unfolding run_calibration_def Let_def detections_first_view_fails
  by (simp add: first_view_fails_def studio_def four_views_def shifted_views_def
      save_result_def Mat_def upt_rec)


text \<open>
  C2, evaluated where the first view fails detection. The board is found in the images
  of views 2, 3 and 4; the calibration returns their poses (2, 20), (3, 30), (4, 40) in
  that order. \<^verbatim>\<open>run_calibration\<close> stores them in views 1, 2 and 3: view 1, whose
  detection failed, receives the pose of view 2, and view 4, whose detection succeeded,
  keeps the zero pose it had.
\<close>

theorem run_calibration_stores_poses_by_image_index:
  "map_sum id (\<lambda>p. map (\<lambda>vw. (bg_path vw, rvec vw, tvec vw)) (views p))
     (run_calibration first_view_fails four_views)
   = Inr [(''bg1.png'', column3 2, column3 20),
          (''bg2.png'', column3 3, column3 30),
          (''bg3.png'', column3 4, column3 40),
          (''bg4.png'', zeros 3 1, zeros 3 1)]"
  by (simp add: run_calibration_first_view_fails shifted_views_def view_at_def)

lemma length_map_filter:
  "length (List.map_filter f xs) = length (filter (\<lambda>x. f x \<noteq> None) xs)"
  by (simp add: List.map_filter_def)

lemma preview_loop:
  "for_each is (\<lambda>i u. if wait_key en i = 27 then Inl CalibrationAborted else Inr u) ()
     = Inl CalibrationAborted
   \<or> for_each is (\<lambda>i u. if wait_key en i = 27 then Inl CalibrationAborted else Inr u) ()
     = Inr ()"
  by (induction "is") auto

text \<open>
  C4. When a board is detected in fewer than 75% of the views, \<^verbatim>\<open>run_calibration\<close>
  raises an exception: the operator's abort if ESC is pressed at a preview, the
  detection failure otherwise. \<^verbatim>\<open>load_project\<close> then ends with that exception before
  \<^verbatim>\<open>write_calibration\<close>: the project and every calibration record are as they were.
\<close>

theorem too_few_detections_abort_loading:
  assumes "real (length (filter (\<lambda>vw. detect_chessboard en (bg_path vw)
                                         (chess_rows p, chess_cols p) \<noteq> None) (views p)))
           < 0.75 * real (length (views p))"
  shows "\<exists>e. (e = CalibrationAborted \<or> e = CalibrationFailed)
           \<and> run_calibration en p = Inl e
           \<and> (needs_calibration p \<longrightarrow> load_project en p fs = (Some e, p, fs))"
proof -
  have few: "real (length (map fst (detections en p))) < real (length (views p)) * 0.75"
    using assms by (simp add: detections_def length_map_filter)
  have "run_calibration en p = Inl CalibrationAborted \<or> run_calibration en p = Inl CalibrationFailed"
    using preview_loop[of "[0 ..< length (map fst (detections en p))]" en] few
    unfolding run_calibration_def Let_def by auto
  then obtain e where e: "e = CalibrationAborted \<or> e = CalibrationFailed" "run_calibration en p = Inl e"
    by blast
  have "needs_calibration p \<longrightarrow> load_project en p fs = (Some e, p, fs)"
    by (simp add: load_project_def e(2))
  then show ?thesis using e by blast
qed

theorem too_few_detections_abort_loading_witness:
  "real (length (filter (\<lambda>vw. detect_chessboard two_views_fail (bg_path vw)
                                   (chess_rows four_views, chess_cols four_views) \<noteq> None)
                        (views four_views)))
     < 0.75 * real (length (views four_views))
   \<and> needs_calibration four_views
   \<and> run_calibration two_views_fail four_views = Inl CalibrationFailed
   \<and> load_project two_views_fail four_views Map.empty = (Some CalibrationFailed, four_views, Map.empty)"
proof -
  have h: "real (length (filter (\<lambda>vw. detect_chessboard two_views_fail (bg_path vw)
                                   (chess_rows four_views, chess_cols four_views) \<noteq> None)
                        (views four_views)))
     < 0.75 * real (length (views four_views))"
    by (simp add: two_views_fail_def studio_def four_views_def view_at_def)
  have n: "needs_calibration four_views" by (simp add: four_views_def)
  have d: "detections two_views_fail four_views = [(Mat, [(2, 20)]), (Mat, [(3, 30)])]"
    by (simp add: detections_def two_views_fail_def four_views_def studio_def view_at_def
        List.map_filter_simps)
  have "run_calibration two_views_fail four_views = Inl CalibrationFailed"
    unfolding run_calibration_def Let_def d
    by (simp add: two_views_fail_def studio_def four_views_def upt_rec)
  then show ?thesis
    using too_few_detections_abort_loading[OF h, of Map.empty] h n by auto
qed

lemma for_each_invariant:
  assumes "for_each as body s = Inr s'" and "I s"
    and "\<And>a u u'. a \<in> set as \<Longrightarrow> I u \<Longrightarrow> body a u = Inr u' \<Longrightarrow> I u'"
  shows "I s'"
  using assms
proof (induction as arbitrary: s)
  case Nil
  then show ?case by simp
next
  case (Cons a as)
  from Cons.prems(1) obtain s1 where s1: "body a s = Inr s1" "for_each as body s1 = Inr s'"
    by (auto split: sum.splits)
  have "I s1" by (rule Cons.prems(3)[of a s s1]) (simp_all add: Cons.prems(2) s1(1))
  then show ?case
    by (rule Cons.IH[OF s1(2)]) (rule Cons.prems(3), simp_all)
qed

lemma save_result_paths:
  assumes "save_result k d rs ts i p = Inr p'"
  shows "map cb_path (views p') = map cb_path (views p)"
proof -
  have i: "i < length (views p)" and p': "p' = p\<lparr>views := (views p)[i := (views p ! i)
                   \<lparr>intrinsic := k, distortion := d, rvec := rs ! i, tvec := ts ! i\<rparr>]\<rparr>"
    using assms by (auto simp: save_result_def split: if_splits)
  show ?thesis
    unfolding p' using i by (simp add: map_update list_update_same_conv)
qed

lemma run_calibration_paths:
  assumes "run_calibration en p = Inr p1"
  shows "map cb_path (views p1) = map cb_path (views p)"
proof -
  obtain k d rs ts n where loop: "for_each [0 ..< n] (save_result k d rs ts) p = Inr p1"
    using assms unfolding run_calibration_def Let_def
    by (auto split: sum.splits if_splits list.splits prod.splits simp del: upt_Suc)
  show ?thesis
    by (rule for_each_invariant[OF loop, where I = "\<lambda>q. map cb_path (views q) = map cb_path (views p)"])
       (simp_all add: save_result_paths)
qed

lemma write_calibration_snoc:
  "write_calibration (p\<lparr>views := vws @ [vw]\<rparr>) fs
     = (write_calibration (p\<lparr>views := vws\<rparr>) fs)(cb_path vw \<mapsto> record_of vw)"
  by (simp add: write_calibration_def)

lemma write_calibration_last:
  assumes "vw \<in> set vws"
  shows "\<exists>vw' \<in> set vws. cb_path vw' = cb_path vw
           \<and> write_calibration (p\<lparr>views := vws\<rparr>) fs (cb_path vw) = Some (record_of vw')"
  using assms
proof (induction vws rule: rev_induct)
  case Nil
  then show ?case by simp
next
  case (snoc a vws)
  show ?case
  proof (cases "cb_path a = cb_path vw")
    case True
    then show ?thesis by (auto simp: write_calibration_snoc)
  next
    case False
    then have "vw \<in> set vws" using snoc.prems by auto
    then show ?thesis using snoc.IH False by (auto simp: write_calibration_snoc)
  qed
qed

lemma write_calibration_distinct:
  assumes "distinct (map cb_path vws)" "vw \<in> set vws"
  shows "write_calibration (p\<lparr>views := vws\<rparr>) fs (cb_path vw) = Some (record_of vw)"
proof -
  obtain vw' where vw': "vw' \<in> set vws" "cb_path vw' = cb_path vw"
      "write_calibration (p\<lparr>views := vws\<rparr>) fs (cb_path vw) = Some (record_of vw')"
    using write_calibration_last[OF assms(2)] by blast
  have "vw' = vw"
    using assms vw'(1,2) by (meson distinct_map inj_onD)
  then show ?thesis using vw'(3) by simp
qed

lemma load_project_files:
  assumes "needs_calibration p" "run_calibration en p = Inr p1"
  shows "snd (snd (load_project en p fs)) = write_calibration p1 fs"
  using assms by (simp add: load_project_def split: prod.splits option.splits)

text \<open>
  C10, as the code has it. When the project needs calibration and \<^verbatim>\<open>run_calibration\<close>
  succeeds, \<^verbatim>\<open>load_project\<close> leaves the files that \<^verbatim>\<open>write_calibration\<close> writes for the
  project as calibrated. It has the views of the project, one for one, under the same
  record paths; the file at the record path of every view, a view without a detected
  board included, holds the calibration of a view with that path, and that of the view
  itself, as it is in memory after the run, when the paths are distinct.
\<close>

theorem successful_calibration_writes_every_record:
  assumes "needs_calibration p" and "run_calibration en p = Inr p1"
  shows "map cb_path (views p1) = map cb_path (views p)
       \<and> snd (snd (load_project en p fs)) = write_calibration p1 fs
       \<and> (\<forall>vw \<in> set (views p1). \<exists>vw' \<in> set (views p1). cb_path vw' = cb_path vw
              \<and> snd (snd (load_project en p fs)) (cb_path vw) = Some (record_of vw'))
       \<and> (distinct (map cb_path (views p1)) \<longrightarrow>
            (\<forall>vw \<in> set (views p1).
               snd (snd (load_project en p fs)) (cb_path vw) = Some (record_of vw)))"
proof -
  have p1: "p1\<lparr>views := views p1\<rparr> = p1" by simp
  have a: "\<forall>vw \<in> set (views p1). \<exists>vw' \<in> set (views p1). cb_path vw' = cb_path vw
              \<and> write_calibration p1 fs (cb_path vw) = Some (record_of vw')"
    using write_calibration_last[of _ "views p1" p1 fs] by (simp add: p1)
  have b: "distinct (map cb_path (views p1)) \<longrightarrow>
            (\<forall>vw \<in> set (views p1). write_calibration p1 fs (cb_path vw) = Some (record_of vw))"
    using write_calibration_distinct[of "views p1" _ p1 fs] by (simp add: p1)
  show ?thesis
    using run_calibration_paths[OF assms(2)] a b
    unfolding load_project_files[OF assms] by blast
qed

theorem successful_calibration_writes_every_record_witness:
  "needs_calibration four_views
   \<and> run_calibration first_view_fails four_views = Inr shifted_views
   \<and> detect_chessboard first_view_fails ''bg1.png'' (7, 7) = None
   \<and> snd (snd (load_project first_view_fails four_views Map.empty)) ''cb1.yml''
       = Some [(''camera_matrix'', eye3), (''dist_coeffs'', zeros 1 5),
               (''rvec'', column3 2), (''tvec'', column3 20)]
   \<and> snd (snd (load_project first_view_fails four_views Map.empty)) ''cb4.yml''
       = Some [(''camera_matrix'', zeros 3 3), (''dist_coeffs'', zeros 1 5),
               (''rvec'', zeros 3 1), (''tvec'', zeros 3 1)]"
proof -
  have n: "needs_calibration four_views" by (simp add: four_views_def)
  have d: "distinct (map cb_path (views shifted_views))"
    by (simp add: shifted_views_def view_at_def)
  have f: "detect_chessboard first_view_fails ''bg1.png'' (7, 7) = None"
    by (simp add: first_view_fails_def studio_def)
  have all: "\<forall>vw \<in> set (views shifted_views).
               snd (snd (load_project first_view_fails four_views Map.empty)) (cb_path vw)
               = Some (record_of vw)"
    using successful_calibration_writes_every_record
            [OF n run_calibration_first_view_fails, of Map.empty] d by blast
  have v1: "snd (snd (load_project first_view_fails four_views Map.empty)) ''cb1.yml''
       = Some [(''camera_matrix'', eye3), (''dist_coeffs'', zeros 1 5),
               (''rvec'', column3 2), (''tvec'', column3 20)]"
    using all by (simp add: shifted_views_def view_at_def record_of_def)
  have v4: "snd (snd (load_project first_view_fails four_views Map.empty)) ''cb4.yml''
       = Some [(''camera_matrix'', zeros 3 3), (''dist_coeffs'', zeros 1 5),
               (''rvec'', zeros 3 1), (''tvec'', zeros 3 1)]"
    using all by (simp add: shifted_views_def view_at_def record_of_def)
  show ?thesis using n run_calibration_first_view_fails f v1 v4 by blast
qed


text \<open>
  C10, as stated, fails: the record of a view without a detected board need not hold the
  calibration that the view had. In \<open>four_views\<close> the board is not found in the image
  of view 1, whose calibration is the zero default; the run succeeds on the other three
  views, and the record \<^verbatim>\<open>cb1.yml\<close> of view 1 then holds the shared camera matrix and the
  pose (2, 20) computed from the image of view 2.
\<close>

theorem failed_view_record_counterexample:
  "needs_calibration four_views
   \<and> run_calibration first_view_fails four_views = Inr shifted_views
   \<and> bg_path (views four_views ! 0) = ''bg1.png''
   \<and> cb_path (views four_views ! 0) = ''cb1.yml''
   \<and> detect_chessboard first_view_fails ''bg1.png''
         (chess_rows four_views, chess_cols four_views) = None
   \<and> record_of (views four_views ! 0)
       = [(''camera_matrix'', zeros 3 3), (''dist_coeffs'', zeros 1 5),
          (''rvec'', zeros 3 1), (''tvec'', zeros 3 1)]
   \<and> snd (snd (load_project first_view_fails four_views Map.empty)) ''cb1.yml''
       = Some [(''camera_matrix'', eye3), (''dist_coeffs'', zeros 1 5),
               (''rvec'', column3 2), (''tvec'', column3 20)]
   \<and> snd (snd (load_project first_view_fails four_views Map.empty)) ''cb1.yml''
       \<noteq> Some (record_of (views four_views ! 0))"
proof -
  have n: "needs_calibration four_views" by (simp add: four_views_def)
  have paths: "bg_path (views four_views ! 0) = ''bg1.png''"
    "cb_path (views four_views ! 0) = ''cb1.yml''"
    by (simp_all add: four_views_def view_at_def)
  have f: "detect_chessboard first_view_fails ''bg1.png''
             (chess_rows four_views, chess_cols four_views) = None"
    by (simp add: first_view_fails_def studio_def)
  have before: "record_of (views four_views ! 0)
       = [(''camera_matrix'', zeros 3 3), (''dist_coeffs'', zeros 1 5),
          (''rvec'', zeros 3 1), (''tvec'', zeros 3 1)]"
    by (simp add: four_views_def view_at_def record_of_def)
  have d: "distinct (map cb_path (views shifted_views))"
    by (simp add: shifted_views_def view_at_def)
  have files: "snd (snd (load_project first_view_fails four_views Map.empty))
                 = write_calibration shifted_views Map.empty"
    by (rule load_project_files[OF n run_calibration_first_view_fails])
  have sv: "shifted_views\<lparr>views := views shifted_views\<rparr> = shifted_views" by simp
  have "write_calibration shifted_views Map.empty (cb_path (views shifted_views ! 0))
          = Some (record_of (views shifted_views ! 0))"
    using write_calibration_distinct[OF d, of "views shifted_views ! 0" shifted_views Map.empty]
    by (simp add: sv) (simp add: shifted_views_def)
  then have after: "snd (snd (load_project first_view_fails four_views Map.empty)) ''cb1.yml''
       = Some [(''camera_matrix'', eye3), (''dist_coeffs'', zeros 1 5),
               (''rvec'', column3 2), (''tvec'', column3 20)]"
    unfolding files by (simp add: shifted_views_def view_at_def record_of_def)
  have ne: "eye3 \<noteq> zeros 3 3" by (simp add: eye3_def zeros_def numeral_eq_Suc)
  have differ: "snd (snd (load_project first_view_fails four_views Map.empty)) ''cb1.yml''
       \<noteq> Some (record_of (views four_views ! 0))"
    unfolding after before using ne by simp
  show ?thesis using n run_calibration_first_view_fails paths f before after differ by blast
qed

subsection \<open>Projection matrix\<close>

lemma glm_perspective_symmetric:
  "glm_perspective fovy aspect zNear zFar ! 2 ! 0 = 0
   \<and> glm_perspective fovy aspect zNear zFar ! 2 ! 1 = 0"
  by (simp add: glm_perspective_def mat4_set_def mat4_diag_def Let_def upt_rec)

text \<open>
  C7. For an intrinsic matrix that is empty or has fewer than three rows or columns,
  \<^verbatim>\<open>calc_proj\<close> returns \<^verbatim>\<open>glm::perspective\<close> of the default field of view (60 degrees),
  the aspect ratio \<open>w / h\<close> and the given planes, without reading the matrix and
  without an error. That projection is symmetric: its off-axis entries are zero.
\<close>

theorem degenerate_intrinsics_fall_back_to_default_projection:
  assumes "mat_empty intrinsic_m \<or> rows intrinsic_m < 3 \<or> cols intrinsic_m < 3"
  shows "calc_proj intrinsic_m w h near_plane far_plane
           = Inr (glm_perspective (glm_radians DEFAULT_FOV) (w / h) near_plane far_plane)
       \<and> glm_perspective (glm_radians DEFAULT_FOV) (w / h) near_plane far_plane ! 2 ! 0 = 0
       \<and> glm_perspective (glm_radians DEFAULT_FOV) (w / h) near_plane far_plane ! 2 ! 1 = 0"
  using assms glm_perspective_symmetric by (simp add: calc_proj_def)

theorem degenerate_intrinsics_fall_back_to_default_projection_witness:
  "(mat_empty (Mat :: real mat) \<or> rows (Mat :: real mat) < 3 \<or> cols (Mat :: real mat) < 3)
   \<and> calc_proj Mat 1280 720 (1 / 10) 10000
       = Inr (glm_perspective (glm_radians DEFAULT_FOV) (1280 / 720) (1 / 10) 10000)"
proof -
  have h: "mat_empty (Mat :: real mat) \<or> rows (Mat :: real mat) < 3 \<or> cols (Mat :: real mat) < 3"
    by (simp add: mat_empty_def Mat_def)
  show ?thesis
    using degenerate_intrinsics_fall_back_to_default_projection[OF h, of 1280 720 "1 / 10" 10000] h
    by blast
qed

subsection \<open>Mask extraction\<close>

lemma mat_of_fields [simp]:
  "rows (mat_of r c ch f) = r" "cols (mat_of r c ch f) = c" "channels (mat_of r c ch f) = ch"
  "length (elems (mat_of r c ch f)) = nat r * nat c * ch"
  by (simp_all add: mat_of_def)

lemma mat_of_ok:
  assumes "0 \<le> r" "0 \<le> c"
  shows "mat_ok (mat_of r c ch f)"
  using assms by (simp add: mat_ok_def)

lemma flat_index:
  fixes y x k r c ch :: nat
  assumes "y < r" "x < c" "k < ch"
  shows "(y * c + x) * ch + k < r * c * ch"
    and "((y * c + x) * ch + k) div ch = y * c + x"
    and "((y * c + x) * ch + k) mod ch = k"
    and "(y * c + x) div c = y"
    and "(y * c + x) mod c = x"
proof -
  have "y * c + x < r * c"
  proof -
    have "y * c + x < y * c + c" using assms by simp
    also have "\<dots> = (y + 1) * c" by simp
    also have "\<dots> \<le> r * c" using assms by (intro mult_le_mono1) simp
    finally show ?thesis .
  qed
  then have "Suc (y * c + x) \<le> r * c" by simp
  then have "Suc (y * c + x) * ch \<le> r * c * ch" by (rule mult_le_mono1)
  moreover have "(y * c + x) * ch + k < Suc (y * c + x) * ch" using assms by simp
  ultimately show "(y * c + x) * ch + k < r * c * ch" by linarith
  show "((y * c + x) * ch + k) div ch = y * c + x" using assms by simp
  show "((y * c + x) * ch + k) mod ch = k" using assms by simp
  show "(y * c + x) div c = y" using assms by simp
  show "(y * c + x) mod c = x" using assms by simp
qed

lemma elem_mat_of:
  assumes "0 \<le> y" "y < r" "0 \<le> x" "x < c" "k < ch"
  shows "elem (mat_of r c ch f) y x k = f y x k"
proof -
  have n: "nat y < nat r" "nat x < nat c" using assms by simp_all
  note fi = flat_index[OF n assms(5)]
  show ?thesis
    unfolding elem_def mat_of_fields
    using fi assms by (simp add: mat_of_def)
qed

lemma mat_of_cong:
  assumes "\<And>y x k. 0 \<le> y \<Longrightarrow> y < r \<Longrightarrow> 0 \<le> x \<Longrightarrow> x < c \<Longrightarrow> k < ch \<Longrightarrow> f y x k = g y x k"
  shows "mat_of r c ch f = mat_of r c ch g"
proof -
  have "f (int ((i div ch) div nat c)) (int ((i div ch) mod nat c)) (i mod ch)
      = g (int ((i div ch) div nat c)) (int ((i div ch) mod nat c)) (i mod ch)"
    if i: "i < nat r * nat c * ch" for i
  proof -
    have ch: "0 < ch" using i by (cases ch) simp_all
    have c: "0 < nat c" using i by (cases "nat c") simp_all
    have "i div ch < nat r * nat c"
      using i ch by (simp add: less_mult_imp_div_less)
    then have "(i div ch) div nat c < nat r"
      using c by (simp add: less_mult_imp_div_less)
    moreover have "(i div ch) mod nat c < nat c" using c by simp
    moreover have "i mod ch < ch" using ch by simp
    ultimately show ?thesis by (intro assms) simp_all
  qed
  then show ?thesis by (simp add: mat_of_def)
qed

lemma kernel_offsets_default:
  "kernel_offsets Mat
   = [(- 1, - 1), (- 1, 0), (- 1, 1), (0, - 1), (0, 0), (0, 1), (1, - 1), (1, 0), (1, 1)]"
  by (simp add: kernel_offsets_def mat_empty_def Mat_def getStructuringElement_RECT_def
      elem_mat_of upto_rec1)

lemma kernel_offsets_cross:
  "kernel_offsets (getStructuringElement_CROSS (5, 5))
   = [(- 2, 0), (- 1, 0), (0, - 2), (0, - 1), (0, 0), (0, 1), (0, 2), (1, 0), (2, 0)]"
proof -
  have ne: "\<not> mat_empty (getStructuringElement_CROSS (5, 5))"
    by (simp add: mat_empty_def getStructuringElement_CROSS_def mat_of_def upt_rec)
  show ?thesis
    unfolding kernel_offsets_def Let_def using ne
    by (simp add: getStructuringElement_CROSS_def elem_mat_of upto_rec1)
qed


lemma uint_absdiff:
  fixes p q :: uint8
  shows "uint (if p \<le> q then q - p else p - q) = \<bar>uint p - uint q\<bar>"
proof (cases "p \<le> q")
  case True
  then have "uint (q - p) = uint q - uint p" by (simp add: uint_sub_lem word_le_def)
  then show ?thesis using True by (simp add: word_le_def)
next
  case False
  then have "q \<le> p" by simp
  then have "uint (p - q) = uint p - uint q" by (simp add: uint_sub_lem word_le_def)
  then show ?thesis using False by (simp add: word_le_def)
qed

lemma split_hsv:
  "Spec2Isabelle.split (mat_of r c 3 f)
   = [mat_of r c 1 (\<lambda>y x _. elem (mat_of r c 3 f) y x 0),
      mat_of r c 1 (\<lambda>y x _. elem (mat_of r c 3 f) y x 1),
      mat_of r c 1 (\<lambda>y x _. elem (mat_of r c 3 f) y x 2)]"
  by (simp add: Spec2Isabelle.split_def upt_rec numeral_2_eq_2)

text \<open>The mask before the morphological cleanup is the raw mask of the specification.\<close>

lemma calc_mask_difference:
  assumes fg: "image_ok fg_img" and bg: "image_ok bg_img"
    and size: "rows fg_img = rows bg_img" "cols fg_img = cols bg_img"
  shows "calc_mask en fg_img bg_img
         = Inr (erode (dilate (erode (difference_mask en fg_img bg_img) Mat)
                        (getStructuringElement_CROSS (5, 5)) 2) Mat)"
proof -
  define r c where "r = rows fg_img" and "c = cols fg_img"
  define F where "F = (\<lambda>im y x k. case bgr2hsv en (elem im y x 0, elem im y x 1, elem im y x 2) of
                              (h, s, v) \<Rightarrow> if k = (0::nat) then h else if k = 1 then s else v)"
  define ch where "ch = (\<lambda>im (k::nat). mat_of r c 1 (\<lambda>y x (_::nat). elem (mat_of r c 3 (F im)) y x k))"
  define df where "df = (\<lambda>k. mat_of r c 1
                       (\<lambda>y x k'. if elem (ch fg_img k) y x k' \<le> elem (ch bg_img k) y x k'
                                  then elem (ch bg_img k) y x k' - elem (ch fg_img k) y x k'
                                  else elem (ch fg_img k) y x k' - elem (ch bg_img k) y x k'))"
  define th where "th = (\<lambda>k t. mat_of r c 1 (\<lambda>y x k'. if uint (elem (df k) y x k') > t then 255 else (0::uint8)))"
  define m0 where "m0 = mat_of r c 1 (\<lambda>y x k'. elem (th 0 THRESHOLD_H) y x k' AND elem (th 1 THRESHOLD_S) y x k')"
  define m1 where "m1 = mat_of r c 1 (\<lambda>y x k'. elem m0 y x k' OR elem (th 2 THRESHOLD_V) y x k')"
  have cf: "cvtColor_BGR2HSV en fg_img = Inr (mat_of r c 3 (F fg_img))"
    using fg by (auto simp: cvtColor_BGR2HSV_def image_ok_def r_def c_def F_def)
  have cb: "cvtColor_BGR2HSV en bg_img = Inr (mat_of r c 3 (F bg_img))"
    using bg size by (auto simp: cvtColor_BGR2HSV_def image_ok_def r_def c_def F_def)
  have sf: "Spec2Isabelle.split (mat_of r c 3 (F im)) = [ch im 0, ch im 1, ch im 2]" for im
    by (simp add: split_hsv ch_def)
  have ad: "absdiff (ch fg_img k) (ch bg_img k) = Inr (df k)" for k
    by (simp add: absdiff_def pointwise2_def same_size_def df_def) (simp add: ch_def)
  have tr: "threshold (df k) t 255 = th k t" for k t
    by (simp add: threshold_def th_def) (simp add: df_def)
  have ba: "bitwise_and (th 0 THRESHOLD_H) (th 1 THRESHOLD_S) = Inr m0"
    by (simp add: bitwise_and_def pointwise2_def same_size_def m0_def) (simp add: th_def)
  have bo: "bitwise_or m0 (th 2 THRESHOLD_V) = Inr m1"
    by (simp add: bitwise_or_def pointwise2_def same_size_def m1_def) (simp add: th_def m0_def)
  have run: "calc_mask en fg_img bg_img
         = Inr (erode (dilate (erode m1 Mat) (getStructuringElement_CROSS (5, 5)) 2) Mat)"
    unfolding calc_mask_def and_then_def
    by (simp add: cf cb sf ad tr ba bo Let_def del: One_nat_def)
  have "m1 = difference_mask en fg_img bg_img"
    unfolding m1_def difference_mask_def r_def[symmetric] c_def[symmetric]
  proof (rule mat_of_cong)
    fix y x :: int and k :: nat
    assume in_range: "0 \<le> y" "y < r" "0 \<le> x" "x < c" "k < 1"
    have k0: "k = 0" using in_range(5) by simp
    have chv: "elem (ch im j) y x 0 = F im y x j" if "j < 3" for im j
      using in_range that by (simp add: ch_def elem_mat_of)
    have dfe: "elem (df j) y x 0
                = (if F fg_img y x j \<le> F bg_img y x j then F bg_img y x j - F fg_img y x j
                   else F fg_img y x j - F bg_img y x j)" if "j < 3" for j
      using in_range that by (simp add: df_def elem_mat_of chv)
    have dfv: "uint (elem (df j) y x 0) = \<bar>uint (F fg_img y x j) - uint (F bg_img y x j)\<bar>" if "j < 3" for j
      unfolding dfe[OF that] by (rule uint_absdiff)
    have thv: "elem (th j t) y x 0
                = (if \<bar>uint (F fg_img y x j) - uint (F bg_img y x j)\<bar> > t then 255 else 0)" if "j < 3" for j t
      using in_range that by (simp add: th_def elem_mat_of dfv)
    have m0v: "elem m0 y x 0 = elem (th 0 THRESHOLD_H) y x 0 AND elem (th 1 THRESHOLD_S) y x 0"
      using in_range by (simp add: m0_def elem_mat_of)
    obtain h1 s1 v1 where p1: "hsv_at en fg_img y x = (h1, s1, v1)" by (cases "hsv_at en fg_img y x") auto
    obtain h2 s2 v2 where p2: "hsv_at en bg_img y x = (h2, s2, v2)" by (cases "hsv_at en bg_img y x") auto
    have Ff: "F fg_img y x 0 = h1" "F fg_img y x 1 = s1" "F fg_img y x 2 = v1"
      using p1 by (simp_all add: F_def hsv_at_def)
    have Fb: "F bg_img y x 0 = h2" "F bg_img y x 1 = s2" "F bg_img y x 2 = v2"
      using p2 by (simp_all add: F_def hsv_at_def)
    have "elem m0 y x 0 OR elem (th 2 THRESHOLD_V) y x 0
          = (if (channel_diff h1 h2 > 20 \<and> channel_diff s1 s2 > 20) \<or> channel_diff v1 v2 > 40
             then 255 else 0)"
      unfolding m0v by (simp add: thv Ff Fb channel_diff_def THRESHOLD_H_def THRESHOLD_S_def
          THRESHOLD_V_def del: One_nat_def)
    then show "elem m0 y x k OR elem (th 2 THRESHOLD_V) y x k
          = (case (hsv_at en fg_img y x, hsv_at en bg_img y x) of
               ((h1, s1, v1), (h2, s2, v2)) \<Rightarrow>
                 if (channel_diff h1 h2 > 20 \<and> channel_diff s1 s2 > 20) \<or> channel_diff v1 v2 > 40
                 then 255 else 0)"
      by (simp add: k0 p1 p2)
  qed
  then show ?thesis using run by simp
qed

lemma fold_min_binary:
  fixes a :: uint8
  assumes "\<forall>v \<in> set vs. v = 0 \<or> v = 255" "a = 0 \<or> a = 255"
  shows "fold min vs a = 0 \<or> fold min vs a = 255"
  using assms
proof (induction vs arbitrary: a)
  case Nil
  then show ?case by simp
next
  case (Cons v vs)
  have "min v a = 0 \<or> min v a = 255" using Cons.prems by (auto simp: min_def)
  then show ?case using Cons.IH[of "min v a"] Cons.prems(1) by simp
qed

lemma fold_max_binary:
  fixes a :: uint8
  assumes "\<forall>v \<in> set vs. v = 0 \<or> v = 255" "a = 0 \<or> a = 255"
  shows "fold max vs a = 0 \<or> fold max vs a = 255"
  using assms
proof (induction vs arbitrary: a)
  case Nil
  then show ?case by simp
next
  case (Cons v vs)
  have "max v a = 0 \<or> max v a = 255" using Cons.prems by (auto simp: max_def)
  then show ?case using Cons.IH[of "max v a"] Cons.prems(1) by simp
qed

lemma fold_min_zero:
  fixes a :: uint8
  assumes "0 \<in> set vs \<or> a = 0"
  shows "fold min vs a = 0"
  using assms
proof (induction vs arbitrary: a)
  case Nil
  then show ?case by simp
next
  case (Cons v vs)
  have "0 \<in> set vs \<or> min v a = 0" using Cons.prems by (auto simp: min_def)
  then show ?case using Cons.IH[of "min v a"] by simp
qed

lemma fold_max_zero:
  fixes a :: uint8
  assumes "\<forall>v \<in> set vs. v = 0" "a = 0"
  shows "fold max vs a = 0"
  using assms by (induction vs arbitrary: a) simp_all

lemma neighbourhood_binary:
  assumes "binary_mask src" "k < channels src" "border = 0 \<or> border = 255"
  shows "\<forall>v \<in> set (neighbourhood src offs border y x k). v = 0 \<or> v = 255"
proof
  fix v assume "v \<in> set (neighbourhood src offs border y x k)"
  then obtain dy dx where v: "v = (if 0 \<le> y + dy \<and> y + dy < rows src \<and> 0 \<le> x + dx \<and> x + dx < cols src
            then elem src (y + dy) (x + dx) k else border)"
    by (auto simp: neighbourhood_def)
  show "v = 0 \<or> v = 255"
  proof (cases "0 \<le> y + dy \<and> y + dy < rows src \<and> 0 \<le> x + dx \<and> x + dx < cols src")
    case True
    then have "elem src (y + dy) (x + dx) k = 0 \<or> elem src (y + dy) (x + dx) k = 255"
      using assms(1,2) unfolding binary_mask_def by blast
    then show ?thesis using True v by simp
  next
    case False
    then have "v = border" unfolding v by (rule if_not_P)
    then show ?thesis using assms(3) by simp
  qed
qed

lemma erode_binary:
  assumes "binary_mask src"
  shows "binary_mask (erode src ker)"
  unfolding binary_mask_def
proof (intro allI impI)
  fix y x k
  assume a: "0 \<le> y \<and> y < rows (erode src ker) \<and> 0 \<le> x \<and> x < cols (erode src ker)
             \<and> k < channels (erode src ker)"
  then have r: "0 \<le> y" "y < rows src" "0 \<le> x" "x < cols src" "k < channels src"
    by (simp_all add: erode_def)
  have "elem (erode src ker) y x k = fold min (neighbourhood src (kernel_offsets ker) 255 y x k) 255"
    using r by (simp add: erode_def elem_mat_of)
  then show "elem (erode src ker) y x k = 0 \<or> elem (erode src ker) y x k = 255"
    using fold_min_binary[OF neighbourhood_binary[OF assms r(5), of 255 "kernel_offsets ker" y x]]
    by simp
qed

lemma dilate_once_binary:
  assumes "binary_mask src"
  shows "binary_mask (dilate_once src ker)"
  unfolding binary_mask_def
proof (intro allI impI)
  fix y x k
  assume a: "0 \<le> y \<and> y < rows (dilate_once src ker) \<and> 0 \<le> x \<and> x < cols (dilate_once src ker)
             \<and> k < channels (dilate_once src ker)"
  then have r: "0 \<le> y" "y < rows src" "0 \<le> x" "x < cols src" "k < channels src"
    by (simp_all add: dilate_once_def)
  have "elem (dilate_once src ker) y x k = fold max (neighbourhood src (kernel_offsets ker) 0 y x k) 0"
    using r by (simp add: dilate_once_def elem_mat_of)
  then show "elem (dilate_once src ker) y x k = 0 \<or> elem (dilate_once src ker) y x k = 255"
    using fold_max_binary[OF neighbourhood_binary[OF assms r(5), of 0 "kernel_offsets ker" y x]]
    by simp
qed

lemma difference_mask_binary: "binary_mask (difference_mask en fg_img bg_img)"
  by (auto simp: binary_mask_def difference_mask_def elem_mat_of split: prod.splits)

lemma morph_fields [simp]:
  "rows (erode src ker) = rows src" "cols (erode src ker) = cols src"
  "channels (erode src ker) = channels src"
  "rows (dilate_once src ker) = rows src" "cols (dilate_once src ker) = cols src"
  "channels (dilate_once src ker) = channels src"
  by (simp_all add: erode_def dilate_once_def)

lemma dilate_twice: "dilate src ker 2 = dilate_once (dilate_once src ker) ker"
  by (simp add: dilate_def numeral_2_eq_2)

text \<open>The image with every pixel off, and its cleanup.\<close>

lemma erode_zero:
  "erode (mat_of r c 1 (\<lambda>_ _ _. 0)) Mat = mat_of r c 1 (\<lambda>_ _ _. 0)"
  unfolding erode_def mat_of_fields
proof (rule mat_of_cong)
  fix y x :: int and k :: nat
  assume r: "0 \<le> y" "y < r" "0 \<le> x" "x < c" "k < 1"
  have "elem (mat_of r c 1 (\<lambda>_ _ _. 0 :: uint8)) y x k = 0"
    using r by (simp add: elem_mat_of)
  then have "0 \<in> set (neighbourhood (mat_of r c 1 (\<lambda>_ _ _. 0)) (kernel_offsets Mat) 255 y x k)"
    using r unfolding kernel_offsets_default neighbourhood_def by simp
  then show "fold min (neighbourhood (mat_of r c 1 (\<lambda>_ _ _. 0)) (kernel_offsets Mat) 255 y x k) 255 = 0"
    by (simp add: fold_min_zero)
qed

lemma dilate_once_zero:
  "dilate_once (mat_of r c 1 (\<lambda>_ _ _. 0)) ker = mat_of r c 1 (\<lambda>_ _ _. 0)"
  unfolding dilate_once_def mat_of_fields
proof (rule mat_of_cong)
  fix y x :: int and k :: nat
  assume r: "0 \<le> y" "y < r" "0 \<le> x" "x < c" "k < 1"
  have "\<forall>v \<in> set (neighbourhood (mat_of r c 1 (\<lambda>_ _ _. 0)) (kernel_offsets ker) 0 y x k). v = 0"
    using r by (auto simp: neighbourhood_def elem_mat_of)
  then show "fold max (neighbourhood (mat_of r c 1 (\<lambda>_ _ _. 0)) (kernel_offsets ker) 0 y x k) 0 = 0"
    by (simp add: fold_max_zero)
qed

lemma difference_mask_same:
  "difference_mask en im im = mat_of (rows im) (cols im) 1 (\<lambda>_ _ _. 0)"
  unfolding difference_mask_def
  by (rule mat_of_cong) (simp add: channel_diff_def split: prod.splits)

text \<open>
  C5. For a colour image used as both background and foreground, \<^verbatim>\<open>calc_mask\<close>
  returns a single-channel mask of the same resolution whose every pixel is 0: no
  channel differs, and the erosions and dilations of an all-zero mask are all-zero.
\<close>

theorem identical_images_give_empty_mask:
  assumes "image_ok im"
  shows "\<exists>m. calc_mask en im im = Inr m
           \<and> rows m = rows im \<and> cols m = cols im \<and> channels m = 1
           \<and> length (elems m) = nat (rows im) * nat (cols im)
           \<and> (\<forall>v \<in> set (elems m). v = 0)"
proof -
  define z :: "uint8 mat" where "z = mat_of (rows im) (cols im) 1 (\<lambda>_ _ _. 0)"
  have "calc_mask en im im
         = Inr (erode (dilate (erode (difference_mask en im im) Mat)
                        (getStructuringElement_CROSS (5, 5)) 2) Mat)"
    by (rule calc_mask_difference[OF assms assms refl refl])
  then have "calc_mask en im im = Inr z"
    by (simp add: difference_mask_same dilate_twice erode_zero dilate_once_zero z_def
        del: One_nat_def)
  moreover have "rows z = rows im" "cols z = cols im" "channels z = 1"
    "length (elems z) = nat (rows im) * nat (cols im)"
    by (simp_all add: z_def)
  moreover have "\<forall>v \<in> set (elems z). v = 0"
    by (simp add: z_def mat_of_def)
  ultimately show ?thesis by blast
qed

theorem identical_images_give_empty_mask_witness:
  "image_ok blue_pixel
   \<and> (\<exists>m. calc_mask (studio []) blue_pixel blue_pixel = Inr m
          \<and> rows m = 1 \<and> cols m = 1 \<and> channels m = 1 \<and> length (elems m) = 1
          \<and> (\<forall>v \<in> set (elems m). v = 0))"
proof -
  have h: "image_ok blue_pixel"
    by (simp add: image_ok_def mat_ok_def mat_empty_def blue_pixel_def)
  have d: "rows blue_pixel = 1" "cols blue_pixel = 1" by (simp_all add: blue_pixel_def)
  show ?thesis
    using identical_images_give_empty_mask[OF h, of "studio []"] h unfolding d by simp
qed

text \<open>
  C6. For a foreground and a background image of the same resolution, \<^verbatim>\<open>calc_mask\<close>
  returns the raw mask of the specification (hue and saturation differences both above
  20, or value difference above 40, as 255, else 0), eroded once, dilated twice with
  the 5 x 5 cross (the middle row and the middle column of the 5 x 5 square), and
  eroded once more; the erosions use the default element of OpenCV, the 3 x 3 square.
  The result is a well-formed matrix of one channel and the resolution of the input,
  and each of its pixels is 0 or 255.
\<close>

theorem calc_mask_thresholds_and_cleans:
  assumes "image_ok fg_img" and "image_ok bg_img"
    and "rows fg_img = rows bg_img" and "cols fg_img = cols bg_img"
  shows "\<exists>m. calc_mask en fg_img bg_img = Inr m
           \<and> m = erode (dilate_once (dilate_once (erode (difference_mask en fg_img bg_img) Mat)
                                        (getStructuringElement_CROSS (5, 5)))
                           (getStructuringElement_CROSS (5, 5))) Mat
           \<and> kernel_offsets (getStructuringElement_CROSS (5, 5))
               = [(- 2, 0), (- 1, 0), (0, - 2), (0, - 1), (0, 0), (0, 1), (0, 2), (1, 0), (2, 0)]
           \<and> kernel_offsets Mat
               = [(- 1, - 1), (- 1, 0), (- 1, 1), (0, - 1), (0, 0), (0, 1), (1, - 1), (1, 0), (1, 1)]
           \<and> rows m = rows fg_img \<and> cols m = cols fg_img \<and> channels m = 1
           \<and> mat_ok m \<and> binary_mask m"
proof -
  define m where "m = erode (dilate_once (dilate_once (erode (difference_mask en fg_img bg_img) Mat)
                                        (getStructuringElement_CROSS (5, 5)))
                           (getStructuringElement_CROSS (5, 5))) Mat"
  have run: "calc_mask en fg_img bg_img = Inr m"
    using calc_mask_difference[OF assms, of en] by (simp add: dilate_twice m_def)
  have shape: "rows m = rows fg_img" "cols m = cols fg_img" "channels m = 1"
    by (simp_all add: m_def difference_mask_def)
  have bin: "binary_mask m"
    unfolding m_def
    by (intro erode_binary dilate_once_binary difference_mask_binary)
  have "0 \<le> rows fg_img" "0 \<le> cols fg_img"
    using assms(1) by (simp_all add: image_ok_def mat_ok_def)
  then have ok: "mat_ok m"
    unfolding m_def erode_def by (intro mat_of_ok) (simp_all add: difference_mask_def)
  show ?thesis
    using run shape bin ok kernel_offsets_cross kernel_offsets_default m_def by blast
qed

theorem calc_mask_thresholds_and_cleans_witness:
  "image_ok blue_pixel \<and> image_ok red_pixel
   \<and> rows blue_pixel = rows red_pixel \<and> cols blue_pixel = cols red_pixel
   \<and> (\<exists>m. calc_mask (studio []) blue_pixel red_pixel = Inr m
          \<and> rows m = 1 \<and> cols m = 1 \<and> channels m = 1 \<and> binary_mask m)"
proof -
  have b: "image_ok blue_pixel"
    by (simp add: image_ok_def mat_ok_def mat_empty_def blue_pixel_def)
  have r: "image_ok red_pixel"
    by (simp add: image_ok_def mat_ok_def mat_empty_def red_pixel_def)
  have s: "rows blue_pixel = rows red_pixel" "cols blue_pixel = cols red_pixel"
    by (simp_all add: blue_pixel_def red_pixel_def)
  have d: "rows blue_pixel = 1" "cols blue_pixel = 1" by (simp_all add: blue_pixel_def)
  show ?thesis
    using calc_mask_thresholds_and_cleans[OF b r s, of "studio []"] b r s unfolding d by blast
qed

end
